theory Spec2Isabelle
  imports Complex_Main "HOL-Library.Log_Nat" "HOL-Library.Monad_Syntax"
begin

section \<open>Postmark MCP server: a shallow embedding\<close>

text \<open>
  The repository holds three revisions of one server file. They are told apart by a
  suffix on the names of the definitions below:
  \<^item> \<open>_basic\<close>: \<^verbatim>\<open>src/postmark-mcp-server.js\<close>; no tracking fields, no tag, no
    \<^verbatim>\<open>try/catch\<close> in the send handlers;
  \<^item> \<open>_guarded\<close>: \<^verbatim>\<open>src/unnamed/part_003\<close>, lines 1 to 306; tracking fields, tag, and a
    \<^verbatim>\<open>try/catch\<close> around the bodies of \<^verbatim>\<open>sendEmail\<close> and \<^verbatim>\<open>sendEmailWithTemplate\<close>;
  \<^item> \<open>_tracked\<close>: \<^verbatim>\<open>src/unnamed/part_003\<close>, lines 307 to 776; tracking fields and tag,
    no \<^verbatim>\<open>try/catch\<close> in the send handlers.
  A definition without a suffix is code that the revisions naming it share verbatim.
  \<^verbatim>\<open>src/unnamed/part_002\<close> is a fourth file that holds the \<^verbatim>\<open>sendEmail\<close> tool of the basic
  revision and nothing else.
\<close>

subsection \<open>JavaScript numbers\<close>

text \<open>
  A JavaScript number is an IEEE 754 double: a finite value (a rational), one of the two
  infinities, or NaN. The sign of zero is not represented: \<open>Fin 0\<close> stands for both
  zeros, which the code below never tells apart (it divides only by values it has tested
  to be greater than zero).
\<close>

datatype number = NaN | PosInf | NegInf | Fin rat

definition pow2 :: "int \<Rightarrow> rat" where
  "pow2 e = (if 0 \<le> e then 2 ^ nat e else 1 / 2 ^ nat (- e))"

definition round_half_even :: "rat \<Rightarrow> int" where
  "round_half_even x =
     (let f = \<lfloor>x\<rfloor>; r = x - of_int f
      in if r < 1 / 2 then f else if 1 / 2 < r then f + 1 else if even f then f else f + 1)"

text \<open>\<open>ilog2 x\<close> is the binary exponent of a positive rational: the largest \<open>e\<close> with
  \<open>2\<^sup>e \<le> x\<close>.\<close>

definition ilog2 :: "rat \<Rightarrow> int" where
  "ilog2 x = (case quotient_of x of (p, q) \<Rightarrow>
     let d = bitlen p - bitlen q in if pow2 d \<le> x then d else d - 1)"

text \<open>
  Rounding an exact result to the nearest double, ties to even: 53 significant bits,
  exponents from -1022 (below it the values are subnormal, spaced \<open>2\<^sup>-\<^sup>1\<^sup>0\<^sup>7\<^sup>4\<close> apart) to
  1023 (beyond it the result is an infinity).
\<close>

definition to_double :: "rat \<Rightarrow> number" where
  "to_double x =
     (if x = 0 then Fin 0
      else let a = \<bar>x\<bar>;
               e = max (ilog2 a) (- 1022);
               u = pow2 (e - 52);
               n = round_half_even (a / u)
           in if 1024 \<le> e \<or> (e = 1023 \<and> n = 2 ^ 53) then (if 0 < x then PosInf else NegInf)
              else Fin (if 0 < x then of_int n * u else - (of_int n * u)))"

text \<open>The operator \<^verbatim>\<open>/\<close> on numbers.\<close>

fun js_div :: "number \<Rightarrow> number \<Rightarrow> number" where
  "js_div NaN _ = NaN"
| "js_div _ NaN = NaN"
| "js_div (Fin x) (Fin y) =
     (if y = 0 then (if x = 0 then NaN else if 0 < x then PosInf else NegInf)
      else to_double (x / y))"
| "js_div (Fin x) _ = Fin 0"
| "js_div PosInf (Fin y) = (if 0 \<le> y then PosInf else NegInf)"
| "js_div NegInf (Fin y) = (if 0 \<le> y then NegInf else PosInf)"
| "js_div _ _ = NaN"

text \<open>The operator \<^verbatim>\<open>*\<close> on numbers.\<close>

fun js_mul :: "number \<Rightarrow> number \<Rightarrow> number" where
  "js_mul NaN _ = NaN"
| "js_mul _ NaN = NaN"
| "js_mul (Fin x) (Fin y) = to_double (x * y)"
| "js_mul (Fin x) PosInf = (if x = 0 then NaN else if 0 < x then PosInf else NegInf)"
| "js_mul (Fin x) NegInf = (if x = 0 then NaN else if 0 < x then NegInf else PosInf)"
| "js_mul PosInf (Fin y) = (if y = 0 then NaN else if 0 < y then PosInf else NegInf)"
| "js_mul NegInf (Fin y) = (if y = 0 then NaN else if 0 < y then NegInf else PosInf)"
| "js_mul PosInf PosInf = PosInf"
| "js_mul NegInf NegInf = PosInf"
| "js_mul _ _ = NegInf"

text \<open>The operator \<^verbatim>\<open>+\<close> on numbers.\<close>

fun js_add :: "number \<Rightarrow> number \<Rightarrow> number" where
  "js_add NaN _ = NaN"
| "js_add _ NaN = NaN"
| "js_add (Fin x) (Fin y) = to_double (x + y)"
| "js_add PosInf NegInf = NaN"
| "js_add NegInf PosInf = NaN"
| "js_add PosInf _ = PosInf"
| "js_add _ PosInf = PosInf"
| "js_add _ _ = NegInf"

text \<open>The comparison \<^verbatim>\<open>a > b\<close>: false as soon as one side is NaN.\<close>

fun js_gt :: "number \<Rightarrow> number \<Rightarrow> bool" where
  "js_gt NaN _ = False"
| "js_gt _ NaN = False"
| "js_gt (Fin x) (Fin y) = (y < x)"
| "js_gt PosInf PosInf = False"
| "js_gt PosInf _ = True"
| "js_gt (Fin x) NegInf = True"
| "js_gt _ _ = False"

text \<open>\<^verbatim>\<open>Math.min\<close> of two numbers: NaN as soon as one of them is NaN.\<close>

fun Math_min :: "number \<Rightarrow> number \<Rightarrow> number" where
  "Math_min NaN _ = NaN"
| "Math_min _ NaN = NaN"
| "Math_min NegInf _ = NegInf"
| "Math_min _ NegInf = NegInf"
| "Math_min PosInf b = b"
| "Math_min a PosInf = a"
| "Math_min (Fin x) (Fin y) = Fin (min x y)"

fun Number_isFinite :: "number \<Rightarrow> bool" where
  "Number_isFinite (Fin _) = True"
| "Number_isFinite _ = False"

text \<open>A number is falsy when it is zero or NaN.\<close>

fun truthy_number :: "number \<Rightarrow> bool" where
  "truthy_number NaN = False"
| "truthy_number (Fin x) = (x \<noteq> 0)"
| "truthy_number _ = True"

text \<open>\<^verbatim>\<open>v || 0\<close> for a field that holds a number or is missing (\<^verbatim>\<open>undefined\<close>).\<close>

definition or_zero :: "number option \<Rightarrow> number" where
  "or_zero v = (case v of None \<Rightarrow> Fin 0 | Some n \<Rightarrow> if truthy_number n then n else Fin 0)"

subsection \<open>Rendering numbers\<close>

definition digit_char :: "nat \<Rightarrow> char" where
  "digit_char d = ''0123456789'' ! d"

fun decimal :: "nat \<Rightarrow> string" where
  "decimal n = (if n < 10 then [digit_char n] else decimal (n div 10) @ [digit_char (n mod 10)])"

declare decimal.simps [simp del]

text \<open>\<open>tenths n\<close> writes \<open>n / 10\<close> with one digit after the point, as
  \<^verbatim>\<open>Number.prototype.toFixed\<close> does for one fraction digit.\<close>

definition tenths :: "nat \<Rightarrow> string" where
  "tenths n = decimal (n div 10) @ ''.'' @ decimal (n mod 10)"

text \<open>
  \<^verbatim>\<open>Number::toString\<close>. The digits it writes are the shortest that read back as the same
  double. For an integer of absolute value up to \<open>2\<^sup>5\<^sup>3\<close> these are the digits of its
  decimal numeral: below that bound neighbouring doubles are at most 1 apart, so no other
  integer reads back as it. For any other finite value (a fraction, or a value beyond
  \<open>2\<^sup>5\<^sup>3\<close>, where the digits are cut short and padded with zeros) the search for the
  digits is not modelled, and is taken as the parameter \<open>shortest\<close>.
\<close>

definition Number_toString :: "(rat \<Rightarrow> string) \<Rightarrow> number \<Rightarrow> string" where
  "Number_toString shortest x =
     (case x of
        NaN \<Rightarrow> ''NaN''
      | PosInf \<Rightarrow> ''Infinity''
      | NegInf \<Rightarrow> ''-Infinity''
      | Fin q \<Rightarrow>
          if q = of_int \<lfloor>q\<rfloor> \<and> \<bar>q\<bar> \<le> 2 ^ 53
          then (if q < 0 then ''-'' else []) @ decimal (nat \<lfloor>\<bar>q\<bar>\<rfloor>)
          else shortest q)"

text \<open>
  \<^verbatim>\<open>x.toFixed(1)\<close>: a value that is not finite is rendered by \<^verbatim>\<open>Number::toString\<close>; a
  negative one gets a minus sign and its absolute value is rendered; from \<open>10\<^sup>2\<^sup>1\<close> on the
  rendering is again \<^verbatim>\<open>Number::toString\<close>; otherwise it is the integer \<open>n\<close> for which
  \<open>n / 10\<close> is nearest to the value (the larger one of two), written as tenths.
\<close>

definition toFixed1 :: "(rat \<Rightarrow> string) \<Rightarrow> number \<Rightarrow> string" where
  "toFixed1 shortest x =
     (case x of
        Fin q \<Rightarrow>
          (let s = (if q < 0 then ''-'' else []); a = \<bar>q\<bar>
           in if 10 ^ 21 \<le> a then s @ Number_toString shortest (Fin a)
              else s @ tenths (nat \<lfloor>a * 10 + 1 / 2\<rfloor>))
      | _ \<Rightarrow> Number_toString shortest x)"

text \<open>\<open>hundredths n\<close> writes \<open>n / 100\<close> with two digits after the point, and
  \<^verbatim>\<open>x.toFixed(2)\<close> is \<^verbatim>\<open>x.toFixed(1)\<close> with hundredths for tenths.\<close>

definition hundredths :: "nat \<Rightarrow> string" where
  "hundredths n =
     decimal (n div 100) @ ''.'' @ decimal (n div 10 mod 10) @ decimal (n mod 10)"

definition toFixed2 :: "(rat \<Rightarrow> string) \<Rightarrow> number \<Rightarrow> string" where
  "toFixed2 shortest x =
     (case x of
        Fin q \<Rightarrow>
          (let s = (if q < 0 then ''-'' else []); a = \<bar>q\<bar>
           in if 10 ^ 21 \<le> a then s @ Number_toString shortest (Fin a)
              else s @ hundredths (nat \<lfloor>a * 100 + 1 / 2\<rfloor>))
      | _ \<Rightarrow> Number_toString shortest x)"

subsection \<open>Errors and tool results\<close>

text \<open>A thrown JavaScript error: the name of its class and its message.\<close>

datatype js_error = JsError (error_name: string) (error_message: string)

text \<open>\<^verbatim>\<open>new Error(msg)\<close>\<close>

definition Error :: "string \<Rightarrow> js_error" where
  "Error msg = JsError ''Error'' msg"

text \<open>\<^verbatim>\<open>Error.prototype.toString\<close>\<close>

definition error_toString :: "js_error \<Rightarrow> string" where
  "error_toString e =
     (if error_name e = [] then error_message e
      else if error_message e = [] then error_name e
      else error_name e @ '': '' @ error_message e)"

text \<open>A tool result \<^verbatim>\<open>{content: [{type: "text", text: t}, ...]}\<close>: the list of its texts.\<close>

record tool_result =
  content :: "string list"

subsection \<open>getDeliveryStats (revisions guarded and tracked)\<close>

text \<open>
  The tool of this name in the basic revision queries another endpoint, reads other fields
  and derives other figures; it follows in the next subsection.

  The parsed body of the statistics response, \<^verbatim>\<open>data\<close>: the five fields the handler
  reads, each a number or missing.
\<close>

record delivery_data =
  Sent :: "number option"
  Tracked :: "number option"
  UniqueOpens :: "number option"
  TotalTrackedLinksSent :: "number option"
  UniqueLinksClicked :: "number option"

definition openRate :: "(rat \<Rightarrow> string) \<Rightarrow> delivery_data \<Rightarrow> string" where
  "openRate shortest data =
     (let tracked = or_zero (Tracked data);
          uniqueOpens = or_zero (UniqueOpens data)
      in if js_gt tracked (Fin 0)
         then toFixed1 shortest (Math_min (js_mul (js_div uniqueOpens tracked) (Fin 100)) (Fin 100))
         else ''0.0'')"

definition safeTotalTrackedLinks :: "delivery_data \<Rightarrow> number" where
  "safeTotalTrackedLinks data =
     (let totalTrackedLinks = or_zero (TotalTrackedLinksSent data)
      in if Number_isFinite totalTrackedLinks then totalTrackedLinks else Fin 0)"

definition safeUniqueLinksClicked :: "delivery_data \<Rightarrow> number" where
  "safeUniqueLinksClicked data =
     (let uniqueLinksClicked = or_zero (UniqueLinksClicked data)
      in if Number_isFinite uniqueLinksClicked then uniqueLinksClicked else Fin 0)"

definition safeClickRate :: "(rat \<Rightarrow> string) \<Rightarrow> delivery_data \<Rightarrow> string" where
  "safeClickRate shortest data =
     (if js_gt (safeTotalTrackedLinks data) (Fin 0)
      then toFixed1 shortest
             (Math_min (js_mul (js_div (safeUniqueLinksClicked data) (safeTotalTrackedLinks data))
                (Fin 100)) (Fin 100))
      else ''0.0'')"

definition delivery_text :: "(rat \<Rightarrow> string) \<Rightarrow> delivery_data \<Rightarrow> string" where
  "delivery_text shortest data =
     ''You sent '' @ Number_toString shortest (or_zero (Sent data))
     @ '' emails in the selected period.'' @ [CHR 0x0A]
     @ ''Out of '' @ Number_toString shortest (or_zero (Tracked data))
     @ '' emails with open tracking, '' @ openRate shortest data @ ''% were opened.'' @ [CHR 0x0A]
     @ ''Out of '' @ Number_toString shortest (safeTotalTrackedLinks data)
     @ '' tracked links, '' @ Number_toString shortest (safeUniqueLinksClicked data)
     @ '' unique links were clicked ('' @ safeClickRate shortest data @ ''%).''"

text \<open>
  The handler from its \<^verbatim>\<open>try\<close> block on. \<open>fetched\<close> is what
  \<^verbatim>\<open>await fetch(url, ...)\<close> followed by \<^verbatim>\<open>await response.json()\<close> gives: the parsed
  body, or the error one of the two threw. The query string built before the \<^verbatim>\<open>try\<close>
  only selects what the upstream returns and is not modelled.
\<close>

definition getDeliveryStats_handler ::
    "(rat \<Rightarrow> string) \<Rightarrow> js_error + delivery_data \<Rightarrow> tool_result" where
  "getDeliveryStats_handler shortest fetched =
     (case fetched of
        Inr data \<Rightarrow> \<lparr>content = [delivery_text shortest data]\<rparr>
      | Inl err \<Rightarrow> \<lparr>content = [''Error fetching delivery stats: '' @ error_toString err]\<rparr>)"

text \<open>
  The rates as the specification words them, for comparison with the code above:
  the open rate is 0 if \<open>tracked\<close> is 0, else the lesser of
  \<open>uniqueOpens / tracked \<times> 100\<close> and 100; the click rate is 0 if
  \<open>totalTrackedLinksSent\<close> is 0 or not finite, else the lesser of
  \<open>uniqueLinksClicked / totalTrackedLinksSent \<times> 100\<close> and 100; both rendered to one
  decimal place.
\<close>

definition spec_openRate :: "(rat \<Rightarrow> string) \<Rightarrow> number \<Rightarrow> number \<Rightarrow> string" where
  "spec_openRate shortest tracked uniqueOpens =
     toFixed1 shortest
       (if tracked = Fin 0 then Fin 0
        else Math_min (js_mul (js_div uniqueOpens tracked) (Fin 100)) (Fin 100))"

definition spec_clickRate :: "(rat \<Rightarrow> string) \<Rightarrow> number \<Rightarrow> number \<Rightarrow> string" where
  "spec_clickRate shortest totalTrackedLinksSent uniqueLinksClicked =
     toFixed1 shortest
       (if totalTrackedLinksSent = Fin 0 \<or> \<not> Number_isFinite totalTrackedLinksSent then Fin 0
        else Math_min (js_mul (js_div uniqueLinksClicked totalTrackedLinksSent) (Fin 100))
               (Fin 100))"

subsection \<open>getDeliveryStats (basic revision)\<close>

text \<open>
  The parsed body, \<^verbatim>\<open>stats\<close>: the four fields the handler reads, each a number or
  missing. A missing field read in a sum is \<^verbatim>\<open>undefined\<close>, which \<^verbatim>\<open>+\<close> takes as NaN.
\<close>

record basic_stats =
  InactiveMails :: "number option"
  BouncedMails :: "number option"
  DeliveredMails :: "number option"
  Opens :: "number option"

definition to_number :: "number option \<Rightarrow> number" where
  "to_number v = (case v of None \<Rightarrow> NaN | Some n \<Rightarrow> n)"

definition sent_basic :: "'a basic_stats_scheme \<Rightarrow> number" where
  "sent_basic stats =
     js_add (js_add (to_number (InactiveMails stats)) (to_number (BouncedMails stats)))
       (to_number (DeliveredMails stats))"

text \<open>\<^verbatim>\<open>stats.Opens && sent ? (stats.Opens / sent) * 100 : null\<close>, and the same with
  \<^verbatim>\<open>stats.BouncedMails\<close>; \<open>None\<close> is \<^verbatim>\<open>null\<close>.\<close>

definition openRate_basic :: "'a basic_stats_scheme \<Rightarrow> number option" where
  "openRate_basic stats =
     (let sent = sent_basic stats
      in case Opens stats of
           None \<Rightarrow> None
         | Some opens \<Rightarrow>
             if truthy_number opens \<and> truthy_number sent
             then Some (js_mul (js_div opens sent) (Fin 100)) else None)"

definition bounceRate_basic :: "'a basic_stats_scheme \<Rightarrow> number option" where
  "bounceRate_basic stats =
     (let sent = sent_basic stats
      in case BouncedMails stats of
           None \<Rightarrow> None
         | Some bounced \<Rightarrow>
             if truthy_number bounced \<and> truthy_number sent
             then Some (js_mul (js_div bounced sent) (Fin 100)) else None)"

text \<open>\<^verbatim>\<open>rate ? rate.toFixed(2) : 'N/A'\<close>\<close>

definition rate_text_basic :: "(rat \<Rightarrow> string) \<Rightarrow> number option \<Rightarrow> string" where
  "rate_text_basic shortest rate =
     (case rate of
        None \<Rightarrow> ''N/A''
      | Some r \<Rightarrow> if truthy_number r then toFixed2 shortest r else ''N/A'')"

text \<open>What \<^verbatim>\<open>fetch\<close> resolves to, as far as the handler reads it; \<open>response_json\<close> is
  what \<^verbatim>\<open>await response.json()\<close> gives.\<close>

record http_response =
  response_ok :: bool
  response_status :: number
  response_statusText :: string
  response_json :: "js_error + basic_stats"

text \<open>
  The handler. \<open>fetched\<close> is what \<^verbatim>\<open>await fetch(...)\<close> gives; \<open>stringify\<close> is
  \<^verbatim>\<open>JSON.stringify\<close> on the body. There is no \<^verbatim>\<open>try/catch\<close>: every failure rejects the
  handler's promise.
\<close>

definition getDeliveryStats_handler_basic ::
    "(rat \<Rightarrow> string) \<Rightarrow> (basic_stats \<Rightarrow> string) \<Rightarrow> js_error + http_response
       \<Rightarrow> js_error + tool_result" where
  "getDeliveryStats_handler_basic shortest stringify fetched =
     (case fetched of
        Inl error \<Rightarrow> Inl error
      | Inr response \<Rightarrow>
          if \<not> response_ok response then
            Inl (Error (''Failed to fetch delivery stats: ''
                   @ Number_toString shortest (response_status response)
                   @ '' '' @ response_statusText response))
          else
            (case response_json response of
               Inl error \<Rightarrow> Inl error
             | Inr stats \<Rightarrow>
                 Inr \<lparr>content =
                   [''Open Rate (last 30 days): ''
                      @ rate_text_basic shortest (openRate_basic stats) @ ''%'',
                    ''Bounce Rate (last 30 days): ''
                      @ rate_text_basic shortest (bounceRate_basic stats) @ ''%'',
                    ''Raw stats: '' @ stringify stats]\<rparr>))"

subsection \<open>Strings\<close>

text \<open>
  A string is a list of code units below 256. Of the code units that
  \<^verbatim>\<open>String.prototype.trim\<close> strips, these are the ones in that range: tab, line feed,
  vertical tab, form feed, carriage return, space and no-break space.
\<close>

definition js_whitespace :: "char \<Rightarrow> bool" where
  "js_whitespace c \<longleftrightarrow>
     c \<in> {CHR 0x09, CHR 0x0A, CHR 0x0B, CHR 0x0C, CHR 0x0D, CHR 0x20, CHR 0xA0}"

definition js_trim :: "string \<Rightarrow> string" where
  "js_trim s = rev (dropWhile js_whitespace (rev (dropWhile js_whitespace s)))"

text \<open>\<^verbatim>\<open>v || d\<close> for an optional string \<open>v\<close>: \<^verbatim>\<open>undefined\<close> and the empty string are
  falsy.\<close>

definition or_default :: "string option \<Rightarrow> string \<Rightarrow> string" where
  "or_default v d = (case v of None \<Rightarrow> d | Some s \<Rightarrow> if s = [] then d else s)"

text \<open>\<^verbatim>\<open>error.message || 'Unknown error'\<close>\<close>

definition message_or_unknown :: "js_error \<Rightarrow> string" where
  "message_or_unknown e = (if error_message e = [] then ''Unknown error'' else error_message e)"

subsection \<open>Configuration and startup\<close>

record config =
  serverToken :: string
  defaultSender :: string
  defaultMessageStream :: string

text \<open>\<^verbatim>\<open>!v\<close> for an environment variable: it is unset or empty.\<close>

definition unset :: "string option \<Rightarrow> bool" where
  "unset v = (case v of None \<Rightarrow> True | Some s \<Rightarrow> s = [])"

text \<open>The top of each revision: the three reads of \<^verbatim>\<open>process.env\<close> and the three checks,
  in the source's order.\<close>

definition load_config :: "(string \<rightharpoonup> string) \<Rightarrow> js_error + config" where
  "load_config env =
     (if unset (env ''POSTMARK_SERVER_TOKEN'') then
        Inl (Error ''POSTMARK_SERVER_TOKEN is not set. Please configure it in your .env file.'')
      else if unset (env ''DEFAULT_SENDER_EMAIL'') then
        Inl (Error ''DEFAULT_SENDER_EMAIL is not set. Please configure it in your .env file.'')
      else if unset (env ''DEFAULT_MESSAGE_STREAM'') then
        Inl (Error ''DEFAULT_MESSAGE_STREAM is not set. Please configure it in your .env file.'')
      else Inr \<lparr>serverToken = the (env ''POSTMARK_SERVER_TOKEN''),
                defaultSender = the (env ''DEFAULT_SENDER_EMAIL''),
                defaultMessageStream = the (env ''DEFAULT_MESSAGE_STREAM'')\<rparr>)"

text \<open>
  The module from top to bottom. An error thrown at the top level ends the process before
  any \<^verbatim>\<open>server.tool\<close> call has run. Otherwise the tools are registered in order and
  \<^verbatim>\<open>server.connect\<close> is awaited: \<open>connect_ok\<close> tells whether its promise resolved; if it
  rejected, the \<^verbatim>\<open>catch\<close> callback calls \<^verbatim>\<open>process.exit(1)\<close>.
\<close>

datatype process =
    Crashed js_error
  | Exited nat
  | Listening config "string list"

definition startup :: "string list \<Rightarrow> bool \<Rightarrow> (string \<rightharpoonup> string) \<Rightarrow> process" where
  "startup tools connect_ok env =
     (case load_config env of
        Inl e \<Rightarrow> Crashed e
      | Inr cfg \<Rightarrow> if connect_ok then Listening cfg tools else Exited 1)"

definition tools_basic :: "string list" where
  "tools_basic = [''sendEmail'', ''sendEmailBatch'', ''sendEmailWithTemplate'', ''createTemplate'',
     ''updateTemplate'', ''listTemplates'', ''getTemplate'', ''getDeliveryStats'',
     ''getOutboundMessages'', ''createDomain'', ''verifyDomainDKIM'', ''verifyDomainReturnPath'']"

definition tools_guarded :: "string list" where
  "tools_guarded = [''sendEmail'', ''sendEmailWithTemplate'', ''listTemplates'',
     ''getDeliveryStats'', ''getOutboundMessages'']"

definition tools_tracked :: "string list" where
  "tools_tracked = tools_basic"

subsection \<open>Tool arguments and their schemas\<close>

text \<open>The arguments of a tool call arrive as a JSON object. An object is the list of its
  entries; \<open>map_of\<close> reads the value under a key.\<close>

datatype json =
    JNull
  | JBool bool
  | JNum number
  | JStr string
  | JArr "json list"
  | JObj "(string \<times> json) list"

text \<open>
  A zod schema, applied to the value under a key (\<open>None\<close> when the key is missing),
  gives the validated value or fails (\<open>None\<close>).
\<close>

text \<open>\<^verbatim>\<open>z.string()\<close>\<close>

definition z_string :: "json option \<Rightarrow> string option" where
  "z_string v = (case v of Some (JStr s) \<Rightarrow> Some s | _ \<Rightarrow> None)"

text \<open>\<^verbatim>\<open>z.string().email()\<close>. The pattern zod tests an address against is zod's own and is
  the parameter \<open>isEmail\<close>.\<close>

definition z_email :: "(string \<Rightarrow> bool) \<Rightarrow> json option \<Rightarrow> string option" where
  "z_email isEmail v = (case v of Some (JStr s) \<Rightarrow> if isEmail s then Some s else None | _ \<Rightarrow> None)"

text \<open>\<^verbatim>\<open>z.number()\<close>: any number but NaN.\<close>

definition z_number :: "json option \<Rightarrow> number option" where
  "z_number v = (case v of Some (JNum n) \<Rightarrow> if n = NaN then None else Some n | _ \<Rightarrow> None)"

text \<open>\<^verbatim>\<open>z.literal(true)\<close>\<close>

definition z_literal_true :: "json option \<Rightarrow> bool option" where
  "z_literal_true v = (case v of Some (JBool True) \<Rightarrow> Some True | _ \<Rightarrow> None)"

text \<open>\<^verbatim>\<open>z.literal("...")\<close>\<close>

definition z_literal :: "string \<Rightarrow> json option \<Rightarrow> string option" where
  "z_literal lit v = (case v of Some (JStr s) \<Rightarrow> if s = lit then Some s else None | _ \<Rightarrow> None)"

text \<open>\<^verbatim>\<open>z.object({}).passthrough()\<close>: any object, its entries kept as they are.\<close>

definition z_passthrough :: "json option \<Rightarrow> (string \<times> json) list option" where
  "z_passthrough v = (case v of Some (JObj kvs) \<Rightarrow> Some kvs | _ \<Rightarrow> None)"

text \<open>\<^verbatim>\<open>.optional()\<close>: a missing key passes; a present value must pass the inner schema.\<close>

definition z_optional :: "(json option \<Rightarrow> 'a option) \<Rightarrow> json option \<Rightarrow> 'a option option" where
  "z_optional z v = (case v of None \<Rightarrow> Some None | Some x \<Rightarrow> map_option Some (z (Some x)))"

text \<open>\<^verbatim>\<open>z.array(...)\<close>: an array all of whose elements pass the inner schema.\<close>

definition z_array :: "(json option \<Rightarrow> 'a option) \<Rightarrow> json option \<Rightarrow> 'a list option" where
  "z_array z v = (case v of Some (JArr xs) \<Rightarrow> those (map (\<lambda>x. z (Some x)) xs) | _ \<Rightarrow> None)"

text \<open>
  What the handlers read of the validated arguments. \<open>mail_args\<close> are the fields of
  \<^verbatim>\<open>sendEmail\<close> in the basic revision and of one message of \<^verbatim>\<open>sendEmailBatch\<close> in every
  revision; \<open>tagged_args\<close> adds the \<^verbatim>\<open>tag\<close> of \<^verbatim>\<open>sendEmail\<close> in the other revisions.
  The fields \<^verbatim>\<open>trackOpens\<close> and \<^verbatim>\<open>trackLinks\<close> are validated and then read by no
  handler; they are not kept.
\<close>

record mail_args =
  arg_to :: string
  arg_subject :: string
  arg_textBody :: string
  arg_from :: "string option"
  arg_messageStream :: "string option"

record tagged_args = mail_args +
  arg_tag :: "string option"

record template_args =
  tpl_to :: string
  tpl_templateId :: "number option"
  tpl_templateAlias :: "string option"
  tpl_templateModel :: "(string \<times> json) list"
  tpl_from :: "string option"
  tpl_messageStream :: "string option"
  tpl_tag :: "string option"

record outbound_args =
  arg_count :: "number option"
  arg_offset :: "number option"

text \<open>The schema of \<^verbatim>\<open>sendEmail\<close>, basic revision.\<close>

definition sendEmail_schema_basic ::
    "(string \<Rightarrow> bool) \<Rightarrow> (string \<times> json) list \<Rightarrow> mail_args option" where
  "sendEmail_schema_basic isEmail raw = do {
     to \<leftarrow> z_email isEmail (map_of raw ''to'');
     subject \<leftarrow> z_string (map_of raw ''subject'');
     textBody \<leftarrow> z_string (map_of raw ''textBody'');
     from \<leftarrow> z_optional z_string (map_of raw ''from'');
     messageStream \<leftarrow> z_optional z_string (map_of raw ''messageStream'');
     Some \<lparr>arg_to = to, arg_subject = subject, arg_textBody = textBody, arg_from = from,
           arg_messageStream = messageStream\<rparr>
   }"

text \<open>The schema of \<^verbatim>\<open>sendEmail\<close>, guarded and tracked revisions.\<close>

definition sendEmail_schema ::
    "(string \<Rightarrow> bool) \<Rightarrow> (string \<times> json) list \<Rightarrow> tagged_args option" where
  "sendEmail_schema isEmail raw = do {
     from \<leftarrow> z_optional z_string (map_of raw ''from'');
     to \<leftarrow> z_email isEmail (map_of raw ''to'');
     subject \<leftarrow> z_string (map_of raw ''subject'');
     textBody \<leftarrow> z_string (map_of raw ''textBody'');
     messageStream \<leftarrow> z_optional z_string (map_of raw ''messageStream'');
     tag \<leftarrow> z_optional z_string (map_of raw ''tag'');
     trackOpens \<leftarrow> z_literal_true (map_of raw ''trackOpens'');
     trackLinks \<leftarrow> z_literal ''HtmlAndText'' (map_of raw ''trackLinks'');
     Some \<lparr>arg_to = to, arg_subject = subject, arg_textBody = textBody, arg_from = from,
           arg_messageStream = messageStream, arg_tag = tag\<rparr>
   }"

text \<open>One element of \<^verbatim>\<open>messages\<close>, basic revision.\<close>

definition message_schema_basic :: "(string \<Rightarrow> bool) \<Rightarrow> json option \<Rightarrow> mail_args option" where
  "message_schema_basic isEmail v =
     (case v of Some (JObj msg) \<Rightarrow> sendEmail_schema_basic isEmail msg | _ \<Rightarrow> None)"

text \<open>One element of \<^verbatim>\<open>messages\<close>, tracked revision.\<close>

definition message_schema_tracked :: "(string \<Rightarrow> bool) \<Rightarrow> json option \<Rightarrow> mail_args option" where
  "message_schema_tracked isEmail v =
     (case v of
        Some (JObj msg) \<Rightarrow> do {
          to \<leftarrow> z_email isEmail (map_of msg ''to'');
          subject \<leftarrow> z_string (map_of msg ''subject'');
          textBody \<leftarrow> z_string (map_of msg ''textBody'');
          from \<leftarrow> z_optional z_string (map_of msg ''from'');
          messageStream \<leftarrow> z_optional z_string (map_of msg ''messageStream'');
          trackOpens \<leftarrow> z_literal_true (map_of msg ''trackOpens'');
          trackLinks \<leftarrow> z_literal ''HtmlAndText'' (map_of msg ''trackLinks'');
          Some \<lparr>arg_to = to, arg_subject = subject, arg_textBody = textBody, arg_from = from,
                arg_messageStream = messageStream\<rparr>
        }
      | _ \<Rightarrow> None)"

definition sendEmailBatch_schema_basic ::
    "(string \<Rightarrow> bool) \<Rightarrow> (string \<times> json) list \<Rightarrow> mail_args list option" where
  "sendEmailBatch_schema_basic isEmail raw =
     z_array (message_schema_basic isEmail) (map_of raw ''messages'')"

definition sendEmailBatch_schema_tracked ::
    "(string \<Rightarrow> bool) \<Rightarrow> (string \<times> json) list \<Rightarrow> mail_args list option" where
  "sendEmailBatch_schema_tracked isEmail raw =
     z_array (message_schema_tracked isEmail) (map_of raw ''messages'')"

text \<open>The schema of \<^verbatim>\<open>sendEmailWithTemplate\<close>, guarded and tracked revisions.\<close>

definition sendEmailWithTemplate_schema ::
    "(string \<Rightarrow> bool) \<Rightarrow> (string \<times> json) list \<Rightarrow> template_args option" where
  "sendEmailWithTemplate_schema isEmail raw = do {
     to \<leftarrow> z_email isEmail (map_of raw ''to'');
     templateId \<leftarrow> z_optional z_number (map_of raw ''templateId'');
     templateAlias \<leftarrow> z_optional z_string (map_of raw ''templateAlias'');
     templateModel \<leftarrow> z_passthrough (map_of raw ''templateModel'');
     from \<leftarrow> z_optional z_string (map_of raw ''from'');
     messageStream \<leftarrow> z_optional z_string (map_of raw ''messageStream'');
     tag \<leftarrow> z_optional z_string (map_of raw ''tag'');
     trackOpens \<leftarrow> z_literal_true (map_of raw ''trackOpens'');
     trackLinks \<leftarrow> z_literal ''HtmlAndText'' (map_of raw ''trackLinks'');
     Some \<lparr>tpl_to = to, tpl_templateId = templateId, tpl_templateAlias = templateAlias,
           tpl_templateModel = templateModel, tpl_from = from,
           tpl_messageStream = messageStream, tpl_tag = tag\<rparr>
   }"

text \<open>The schema of \<^verbatim>\<open>getOutboundMessages\<close>, every revision.\<close>

definition getOutboundMessages_schema :: "(string \<times> json) list \<Rightarrow> outbound_args option" where
  "getOutboundMessages_schema raw = do {
     count \<leftarrow> z_optional z_number (map_of raw ''count'');
     offset \<leftarrow> z_optional z_number (map_of raw ''offset'');
     Some \<lparr>arg_count = count, arg_offset = offset\<rparr>
   }"

subsection \<open>Provider requests\<close>

text \<open>
  The object handed to the Postmark client. A key that the object does not have is
  \<open>None\<close>. \<open>email_payload\<close> is the request of \<^verbatim>\<open>sendEmail\<close> and one entry of the
  batch; \<open>template_payload\<close> is the request of \<^verbatim>\<open>sendEmailWithTemplate\<close>.
\<close>

record payload_base =
  From :: string
  To :: string
  MessageStream :: string
  TrackOpens :: "bool option"
  TrackLinks :: "string option"
  Tag :: "string option"

record email_payload = payload_base +
  Subject :: string
  TextBody :: string

record template_payload = payload_base +
  TemplateModel :: "(string \<times> json) list"
  TemplateId :: "number option"
  TemplateAlias :: "string option"

text \<open>What the client's promise resolves to, as far as the handlers read it.\<close>

record send_result =
  MessageID :: string

text \<open>\<^verbatim>\<open>tag && tag.trim() !== ""\<close>\<close>

definition tag_given :: "string option \<Rightarrow> bool" where
  "tag_given tag = (case tag of None \<Rightarrow> False | Some t \<Rightarrow> t \<noteq> [] \<and> js_trim t \<noteq> [])"

subsection \<open>sendEmail\<close>

text \<open>
  A handler gives the list of requests it has issued to the provider, in order, and
  how its promise settles: \<open>Inl\<close> the error it rejects with, \<open>Inr\<close> the tool result it
  resolves to. \<open>client\<close> is the provider call: the error it rejects with or the result
  it resolves to. Writes to the console are left out.
\<close>

definition sendEmail_payload_basic :: "config \<Rightarrow> 'a mail_args_scheme \<Rightarrow> email_payload" where
  "sendEmail_payload_basic cfg a =
     \<lparr>From = or_default (arg_from a) (defaultSender cfg),
      To = arg_to a,
      MessageStream = or_default (arg_messageStream a) (defaultMessageStream cfg),
      TrackOpens = None, TrackLinks = None, Tag = None,
      Subject = arg_subject a,
      TextBody = arg_textBody a\<rparr>"

definition sendEmail_handler_basic ::
    "config \<Rightarrow> (email_payload \<Rightarrow> js_error + send_result) \<Rightarrow> 'a mail_args_scheme
       \<Rightarrow> email_payload list \<times> (js_error + tool_result)" where
  "sendEmail_handler_basic cfg client a =
     (let payload = sendEmail_payload_basic cfg a
      in case client payload of
           Inl error \<Rightarrow> ([payload], Inl error)
         | Inr result \<Rightarrow>
             ([payload], Inr \<lparr>content = [''Email sent! MessageID: '' @ MessageID result]\<rparr>))"

text \<open>The payload of the guarded and the tracked revision.\<close>

definition sendEmail_payload :: "config \<Rightarrow> tagged_args \<Rightarrow> email_payload" where
  "sendEmail_payload cfg a =
     (let payload =
        \<lparr>From = or_default (arg_from a) (defaultSender cfg),
         To = arg_to a,
         MessageStream = or_default (arg_messageStream a) (defaultMessageStream cfg),
         TrackOpens = Some True, TrackLinks = Some ''HtmlAndText'', Tag = None,
         Subject = arg_subject a,
         TextBody = arg_textBody a\<rparr>
      in if tag_given (arg_tag a) then payload\<lparr>Tag := arg_tag a\<rparr> else payload)"

definition sendEmail_handler_tracked ::
    "config \<Rightarrow> (email_payload \<Rightarrow> js_error + send_result) \<Rightarrow> tagged_args
       \<Rightarrow> email_payload list \<times> (js_error + tool_result)" where
  "sendEmail_handler_tracked cfg client a =
     (let payload = sendEmail_payload cfg a
      in case client payload of
           Inl error \<Rightarrow> ([payload], Inl error)
         | Inr result \<Rightarrow>
             ([payload], Inr \<lparr>content = [''Email sent! MessageID: '' @ MessageID result]\<rparr>))"

definition sendEmail_handler_guarded ::
    "config \<Rightarrow> (email_payload \<Rightarrow> js_error + send_result) \<Rightarrow> tagged_args
       \<Rightarrow> email_payload list \<times> (js_error + tool_result)" where
  "sendEmail_handler_guarded cfg client a =
     (let payload = sendEmail_payload cfg a
      in case client payload of
           Inl error \<Rightarrow>
             ([payload], Inr \<lparr>content = [''Failed to send email: '' @ message_or_unknown error]\<rparr>)
         | Inr result \<Rightarrow>
             ([payload], Inr \<lparr>content = [''Email sent! MessageID: '' @ MessageID result]\<rparr>))"

subsection \<open>sendEmailBatch\<close>

text \<open>\<open>stringify\<close> is \<^verbatim>\<open>JSON.stringify\<close>, which is not modelled.\<close>

definition sendEmailBatch_handler_basic ::
    "config \<Rightarrow> (email_payload list \<Rightarrow> js_error + json) \<Rightarrow> (json \<Rightarrow> string) \<Rightarrow> mail_args list
       \<Rightarrow> email_payload list list \<times> (js_error + tool_result)" where
  "sendEmailBatch_handler_basic cfg client stringify messages =
     (let batch = map (\<lambda>msg. sendEmail_payload_basic cfg msg) messages
      in case client batch of
           Inl error \<Rightarrow> ([batch], Inl error)
         | Inr result \<Rightarrow>
             ([batch], Inr \<lparr>content = [''Batch sent! Results: '' @ stringify result]\<rparr>))"

definition batch_entry_tracked :: "config \<Rightarrow> mail_args \<Rightarrow> email_payload" where
  "batch_entry_tracked cfg msg =
     \<lparr>From = or_default (arg_from msg) (defaultSender cfg),
      To = arg_to msg,
      MessageStream = or_default (arg_messageStream msg) (defaultMessageStream cfg),
      TrackOpens = Some True, TrackLinks = Some ''HtmlAndText'', Tag = None,
      Subject = arg_subject msg,
      TextBody = arg_textBody msg\<rparr>"

definition sendEmailBatch_handler_tracked ::
    "config \<Rightarrow> (email_payload list \<Rightarrow> js_error + json) \<Rightarrow> (json \<Rightarrow> string) \<Rightarrow> mail_args list
       \<Rightarrow> email_payload list list \<times> (js_error + tool_result)" where
  "sendEmailBatch_handler_tracked cfg client stringify messages =
     (let batch = map (\<lambda>msg. batch_entry_tracked cfg msg) messages
      in case client batch of
           Inl error \<Rightarrow> ([batch], Inl error)
         | Inr result \<Rightarrow>
             ([batch], Inr \<lparr>content = [''Batch sent! Results: '' @ stringify result]\<rparr>))"

subsection \<open>sendEmailWithTemplate (revisions guarded and tracked)\<close>

text \<open>\<^verbatim>\<open>if (templateId)\<close> and \<^verbatim>\<open>else if (templateAlias)\<close>\<close>

definition truthy_id :: "number option \<Rightarrow> bool" where
  "truthy_id v = (case v of None \<Rightarrow> False | Some n \<Rightarrow> truthy_number n)"

definition truthy_string :: "string option \<Rightarrow> bool" where
  "truthy_string v = (case v of None \<Rightarrow> False | Some s \<Rightarrow> s \<noteq> [])"

text \<open>The handler's body up to the provider call: the payload, or the error thrown.\<close>

definition sendEmailWithTemplate_payload :: "config \<Rightarrow> template_args \<Rightarrow> js_error + template_payload" where
  "sendEmailWithTemplate_payload cfg a =
     (let payload =
        \<lparr>From = or_default (tpl_from a) (defaultSender cfg),
         To = tpl_to a,
         MessageStream = or_default (tpl_messageStream a) (defaultMessageStream cfg),
         TrackOpens = Some True, TrackLinks = Some ''HtmlAndText'', Tag = None,
         TemplateModel = tpl_templateModel a,
         TemplateId = None, TemplateAlias = None\<rparr>
      in case (if truthy_id (tpl_templateId a) then
                 Inr (payload\<lparr>TemplateId := tpl_templateId a\<rparr>)
               else if truthy_string (tpl_templateAlias a) then
                 Inr (payload\<lparr>TemplateAlias := tpl_templateAlias a\<rparr>)
               else Inl (Error ''Either templateId or templateAlias must be provided.'')) of
           Inl error \<Rightarrow> Inl error
         | Inr payload \<Rightarrow>
             Inr (if tag_given (tpl_tag a) then payload\<lparr>Tag := tpl_tag a\<rparr> else payload))"

definition sendEmailWithTemplate_handler_tracked ::
    "config \<Rightarrow> (template_payload \<Rightarrow> js_error + send_result) \<Rightarrow> template_args
       \<Rightarrow> template_payload list \<times> (js_error + tool_result)" where
  "sendEmailWithTemplate_handler_tracked cfg client a =
     (case sendEmailWithTemplate_payload cfg a of
        Inl error \<Rightarrow> ([], Inl error)
      | Inr payload \<Rightarrow>
          (case client payload of
             Inl error \<Rightarrow> ([payload], Inl error)
           | Inr result \<Rightarrow>
               ([payload],
                Inr \<lparr>content = [''Email sent with template! MessageID: '' @ MessageID result]\<rparr>)))"

definition sendEmailWithTemplate_handler_guarded ::
    "config \<Rightarrow> (template_payload \<Rightarrow> js_error + send_result) \<Rightarrow> template_args
       \<Rightarrow> template_payload list \<times> (js_error + tool_result)" where
  "sendEmailWithTemplate_handler_guarded cfg client a =
     (case sendEmailWithTemplate_payload cfg a of
        Inl error \<Rightarrow>
          ([], Inr \<lparr>content = [''Failed to send template email: '' @ message_or_unknown error]\<rparr>)
      | Inr payload \<Rightarrow>
          (case client payload of
             Inl error \<Rightarrow>
               ([payload],
                Inr \<lparr>content = [''Failed to send template email: '' @ message_or_unknown error]\<rparr>)
           | Inr result \<Rightarrow>
               ([payload],
                Inr \<lparr>content = [''Email sent with template! MessageID: '' @ MessageID result]\<rparr>)))"

subsection \<open>sendEmailWithTemplate (basic revision)\<close>

text \<open>The basic revision knows no alias and no tag, and its \<^verbatim>\<open>templateId\<close> is required.\<close>

definition sendEmailWithTemplate_schema_basic ::
    "(string \<Rightarrow> bool) \<Rightarrow> (string \<times> json) list \<Rightarrow> template_args option" where
  "sendEmailWithTemplate_schema_basic isEmail raw = do {
     to \<leftarrow> z_email isEmail (map_of raw ''to'');
     templateId \<leftarrow> z_number (map_of raw ''templateId'');
     templateModel \<leftarrow> z_passthrough (map_of raw ''templateModel'');
     from \<leftarrow> z_optional z_string (map_of raw ''from'');
     messageStream \<leftarrow> z_optional z_string (map_of raw ''messageStream'');
     Some \<lparr>tpl_to = to, tpl_templateId = Some templateId, tpl_templateAlias = None,
           tpl_templateModel = templateModel, tpl_from = from,
           tpl_messageStream = messageStream, tpl_tag = None\<rparr>
   }"

definition sendEmailWithTemplate_handler_basic ::
    "config \<Rightarrow> (template_payload \<Rightarrow> js_error + send_result) \<Rightarrow> template_args
       \<Rightarrow> template_payload list \<times> (js_error + tool_result)" where
  "sendEmailWithTemplate_handler_basic cfg client a =
     (let payload =
        \<lparr>From = or_default (tpl_from a) (defaultSender cfg),
         To = tpl_to a,
         MessageStream = or_default (tpl_messageStream a) (defaultMessageStream cfg),
         TrackOpens = None, TrackLinks = None, Tag = None,
         TemplateModel = tpl_templateModel a,
         TemplateId = tpl_templateId a, TemplateAlias = None\<rparr>
      in case client payload of
           Inl error \<Rightarrow> ([payload], Inl error)
         | Inr result \<Rightarrow>
             ([payload],
              Inr \<lparr>content = [''Email sent with template! MessageID: '' @ MessageID result]\<rparr>))"

subsection \<open>getOutboundMessages (every revision)\<close>

text \<open>The request \<^verbatim>\<open>{count, offset}\<close> is the pair of the two numbers; \<open>client\<close> resolves
  to the \<^verbatim>\<open>Messages\<close> of the provider's answer.\<close>

definition getOutboundMessages_handler ::
    "(number \<times> number \<Rightarrow> js_error + json) \<Rightarrow> (json \<Rightarrow> string) \<Rightarrow> outbound_args
       \<Rightarrow> (number \<times> number) list \<times> (js_error + tool_result)" where
  "getOutboundMessages_handler client stringify a =
     (let count = (case arg_count a of None \<Rightarrow> Fin 10 | Some c \<Rightarrow> c);
          offset = (case arg_offset a of None \<Rightarrow> Fin 0 | Some c \<Rightarrow> c)
      in case client (count, offset) of
           Inl error \<Rightarrow> ([(count, offset)], Inl error)
         | Inr result \<Rightarrow> ([(count, offset)], Inr \<lparr>content = [stringify result]\<rparr>))"

subsection \<open>Dispatch\<close>

text \<open>
  Between the transport and a handler stands the protocol library's dispatcher, which is
  not part of the repository. What is modelled of it: the arguments are validated against
  the schema given to \<^verbatim>\<open>server.tool\<close>; arguments that fail are answered without the
  handler being called (\<open>InvalidArgument\<close>); on arguments that pass, the handler runs, and
  the outcome is how its promise settles: \<open>Threw\<close> the error it rejects with, or
  \<open>Returned\<close> the tool result it resolves to. What the library makes of a rejected promise
  is outside the repository and is not modelled.
\<close>

datatype outcome =
    InvalidArgument
  | Threw js_error
  | Returned tool_result

definition dispatch ::
    "((string \<times> json) list \<Rightarrow> 'a option) \<Rightarrow> ('a \<Rightarrow> 'c list \<times> (js_error + tool_result))
       \<Rightarrow> (string \<times> json) list \<Rightarrow> 'c list \<times> outcome" where
  "dispatch schema handler raw =
     (case schema raw of
        None \<Rightarrow> ([], InvalidArgument)
      | Some args \<Rightarrow>
          (case handler args of
             (calls, Inl error) \<Rightarrow> (calls, Threw error)
           | (calls, Inr result) \<Rightarrow> (calls, Returned result)))"

subsection \<open>The scenario of the specification\<close>

text \<open>Default sender \<^verbatim>\<open>info@x.com\<close>, default stream \<^verbatim>\<open>outbound\<close>.\<close>

definition scenario_config :: config where
  "scenario_config =
     \<lparr>serverToken = ''token'', defaultSender = ''info@x.com'',
      defaultMessageStream = ''outbound''\<rparr>"

text \<open>The arguments \<^verbatim>\<open>{to: "a@b.com", subject: "S", textBody: "B"}\<close>.\<close>

definition scenario_arguments :: "(string \<times> json) list" where
  "scenario_arguments =
     [(''to'', JStr ''a@b.com''), (''subject'', JStr ''S''), (''textBody'', JStr ''B'')]"

section \<open>Properties\<close>

subsection \<open>Numbers stay in range\<close>

lemma pow2_pos: "0 < pow2 e"
  by (simp add: pow2_def)

lemma round_half_even_nonneg: "0 \<le> x \<Longrightarrow> 0 \<le> round_half_even x"
  by (simp add: round_half_even_def Let_def)

lemma to_double_nonneg:
  assumes "0 \<le> x"
  shows "to_double x = PosInf \<or> (\<exists>y. 0 \<le> y \<and> to_double x = Fin y)"
proof (cases "x = 0")
  case True
  then show ?thesis by (simp add: to_double_def)
next
  case False
  with assms have pos: "0 < x" by simp
  define u where "u = pow2 (max (ilog2 \<bar>x\<bar>) (- 1022) - 52)"
  have "0 < u" unfolding u_def by (rule pow2_pos)
  with pos have "0 \<le> \<bar>x\<bar> / u" by simp
  then have "0 \<le> round_half_even (\<bar>x\<bar> / u)" by (rule round_half_even_nonneg)
  with \<open>0 < u\<close> have "0 \<le> of_int (round_half_even (\<bar>x\<bar> / u)) * u" by simp
  with pos show ?thesis
    by (simp add: to_double_def Let_def u_def)
qed

lemma capped_percentage:
  assumes "0 \<le> p" "0 < q"
  shows "\<exists>w. 0 \<le> w \<and> w \<le> 100 \<and>
           Math_min (js_mul (js_div (Fin p) (Fin q)) (Fin 100)) (Fin 100) = Fin w"
proof -
  from assms have "0 \<le> p / q" by simp
  from to_double_nonneg [OF this] consider
    "to_double (p / q) = PosInf" | y where "0 \<le> y" "to_double (p / q) = Fin y" by blast
  then show ?thesis
  proof cases
    case 1
    with assms show ?thesis by simp
  next
    case 2
    from \<open>0 \<le> y\<close> have "0 \<le> y * 100" by simp
    from to_double_nonneg [OF this] consider
      "to_double (y * 100) = PosInf" | z where "0 \<le> z" "to_double (y * 100) = Fin z" by blast
    then show ?thesis
    proof cases
      case 1
      with 2 assms show ?thesis by simp
    next
      case 2
      with \<open>to_double (p / q) = Fin y\<close> assms show ?thesis by simp
    qed
  qed
qed

lemma toFixed1_percentage:
  assumes "0 \<le> w" "w \<le> 100"
  shows "\<exists>n\<le>1000. toFixed1 sh (Fin w) = tenths n"
proof -
  have "w * 10 + 1 / 2 < of_int 1000 + 1" using assms by simp
  then have "\<lfloor>w * 10 + 1 / 2\<rfloor> \<le> 1000" by (simp only: floor_le_iff)
  then have "nat \<lfloor>w * 10 + 1 / 2\<rfloor> \<le> 1000" by linarith
  moreover have "toFixed1 sh (Fin w) = tenths (nat \<lfloor>w * 10 + 1 / 2\<rfloor>)"
    using assms by (simp add: toFixed1_def Let_def)
  ultimately show ?thesis by blast
qed

lemma tenths_zero: "tenths 0 = ''0.0''"
  by (simp add: tenths_def decimal.simps digit_char_def)

lemma tenths_shape: "\<exists>ds d. tenths n = ds @ [CHR ''.'', d]"
  by (simp add: tenths_def decimal.simps [of "n mod 10"])

lemma tenths_not_NaN: "tenths n \<noteq> ''NaN''"
proof
  assume a: "tenths n = ''NaN''"
  obtain ds d where "tenths n = ds @ [CHR ''.'', d]" using tenths_shape by blast
  with a have "rev (ds @ [CHR ''.'', d]) = rev ''NaN''" by simp
  then show False by simp
qed

lemma tenths_not_Infinity: "tenths n \<noteq> ''Infinity''"
proof
  assume a: "tenths n = ''Infinity''"
  obtain ds d where "tenths n = ds @ [CHR ''.'', d]" using tenths_shape by blast
  with a have "rev (ds @ [CHR ''.'', d]) = rev ''Infinity''" by simp
  then show False by simp
qed

lemma toFixed1_zero: "toFixed1 sh (Fin 0) = ''0.0''"
  by (simp add: toFixed1_def tenths_zero)

lemma or_zero_count: "or_zero (Some (Fin q)) = Fin q"
  by (simp add: or_zero_def)

subsection \<open>The rates of the basic revision\<close>

lemma js_add_nonneg:
  assumes "0 \<le> x" "0 \<le> y"
  shows "js_add (Fin x) (Fin y) = PosInf \<or> (\<exists>z. 0 \<le> z \<and> js_add (Fin x) (Fin y) = Fin z)"
  using to_double_nonneg [of "x + y"] assms by simp

lemma sent_basic_nonneg:
  assumes "InactiveMails stats = Some (Fin i)" "0 \<le> i"
    and "BouncedMails stats = Some (Fin b)" "0 \<le> b"
    and "DeliveredMails stats = Some (Fin d)" "0 \<le> d"
  shows "sent_basic stats = js_add (js_add (Fin i) (Fin b)) (Fin d)
       \<and> (sent_basic stats = PosInf \<or> (\<exists>s. 0 \<le> s \<and> sent_basic stats = Fin s))"
proof -
  have eq: "sent_basic stats = js_add (js_add (Fin i) (Fin b)) (Fin d)"
    using assms by (simp add: sent_basic_def to_number_def)
  from js_add_nonneg [OF assms(2,4)] consider
    "js_add (Fin i) (Fin b) = PosInf" | z where "0 \<le> z" "js_add (Fin i) (Fin b) = Fin z"
    by blast
  then have "js_add (js_add (Fin i) (Fin b)) (Fin d) = PosInf
      \<or> (\<exists>s. 0 \<le> s \<and> js_add (js_add (Fin i) (Fin b)) (Fin d) = Fin s)"
  proof cases
    case 1
    then show ?thesis by simp
  next
    case 2
    with js_add_nonneg [OF \<open>0 \<le> z\<close> assms(6)] show ?thesis by simp
  qed
  with eq show ?thesis by simp
qed

lemma percentage_nonneg:
  assumes "0 \<le> p" and "sent = PosInf \<or> (\<exists>s. 0 < s \<and> sent = Fin s)"
  shows "js_mul (js_div (Fin p) sent) (Fin 100) = PosInf
       \<or> (\<exists>r. 0 \<le> r \<and> js_mul (js_div (Fin p) sent) (Fin 100) = Fin r)"
proof -
  from assms(2) consider "sent = PosInf" | s where "0 < s" "sent = Fin s" by blast
  then show ?thesis
  proof cases
    case 1
    then show ?thesis by (simp add: to_double_def)
  next
    case 2
    with assms(1) have "0 \<le> p / s" by simp
    from to_double_nonneg [OF this] consider
      "to_double (p / s) = PosInf" | y where "0 \<le> y" "to_double (p / s) = Fin y" by blast
    then show ?thesis
    proof cases
      case 1
      with 2 show ?thesis by simp
    next
      case y: 2
      from \<open>0 \<le> y\<close> have "0 \<le> y * 100" by simp
      from to_double_nonneg [OF this] y(2) 2 show ?thesis by auto
    qed
  qed
qed

lemma rate_text_basic_cases:
  assumes "0 \<le> p" and "sent = PosInf \<or> (\<exists>s. 0 \<le> s \<and> sent = Fin s)"
  shows "(if truthy_number (Fin p) \<and> truthy_number sent
          then rate_text_basic sh (Some (js_mul (js_div (Fin p) sent) (Fin 100)))
          else ''N/A'')
       = (if p = 0 \<or> sent = Fin 0 \<or> js_mul (js_div (Fin p) sent) (Fin 100) = Fin 0
          then ''N/A'' else toFixed2 sh (js_mul (js_div (Fin p) sent) (Fin 100)))"
proof (cases "p = 0 \<or> sent = Fin 0")
  case True
  then show ?thesis by auto
next
  case False
  with assms(2) have "sent = PosInf \<or> (\<exists>s. 0 < s \<and> sent = Fin s)" by auto
  from percentage_nonneg [OF assms(1) this] False assms(2) show ?thesis
    by (auto simp: rate_text_basic_def)
qed

lemma basic_rates_text:
  assumes "InactiveMails stats = Some (Fin i)" "0 \<le> i"
    and "BouncedMails stats = Some (Fin b)" "0 \<le> b"
    and "DeliveredMails stats = Some (Fin d)" "0 \<le> d"
    and "Opens stats = Some (Fin k)" "0 \<le> k"
  shows "rate_text_basic sh (openRate_basic stats)
           = (if k = 0 \<or> sent_basic stats = Fin 0
                 \<or> js_mul (js_div (Fin k) (sent_basic stats)) (Fin 100) = Fin 0
              then ''N/A''
              else toFixed2 sh (js_mul (js_div (Fin k) (sent_basic stats)) (Fin 100)))"
    and "rate_text_basic sh (bounceRate_basic stats)
           = (if b = 0 \<or> sent_basic stats = Fin 0
                 \<or> js_mul (js_div (Fin b) (sent_basic stats)) (Fin 100) = Fin 0
              then ''N/A''
              else toFixed2 sh (js_mul (js_div (Fin b) (sent_basic stats)) (Fin 100)))"
proof -
  from sent_basic_nonneg [OF assms(1-6)]
  have sent: "sent_basic stats = PosInf \<or> (\<exists>s. 0 \<le> s \<and> sent_basic stats = Fin s)" by blast
  have "rate_text_basic sh (openRate_basic stats)
      = (if truthy_number (Fin k) \<and> truthy_number (sent_basic stats)
         then rate_text_basic sh (Some (js_mul (js_div (Fin k) (sent_basic stats)) (Fin 100)))
         else ''N/A'')"
    using assms(7) by (simp add: openRate_basic_def rate_text_basic_def)
  with rate_text_basic_cases [OF assms(8) sent, of sh]
  show "rate_text_basic sh (openRate_basic stats)
           = (if k = 0 \<or> sent_basic stats = Fin 0
                 \<or> js_mul (js_div (Fin k) (sent_basic stats)) (Fin 100) = Fin 0
              then ''N/A''
              else toFixed2 sh (js_mul (js_div (Fin k) (sent_basic stats)) (Fin 100)))"
    by simp
  have "rate_text_basic sh (bounceRate_basic stats)
      = (if truthy_number (Fin b) \<and> truthy_number (sent_basic stats)
         then rate_text_basic sh (Some (js_mul (js_div (Fin b) (sent_basic stats)) (Fin 100)))
         else ''N/A'')"
    using assms(3) by (simp add: bounceRate_basic_def rate_text_basic_def)
  with rate_text_basic_cases [OF assms(4) sent, of sh]
  show "rate_text_basic sh (bounceRate_basic stats)
           = (if b = 0 \<or> sent_basic stats = Fin 0
                 \<or> js_mul (js_div (Fin b) (sent_basic stats)) (Fin 100) = Fin 0
              then ''N/A''
              else toFixed2 sh (js_mul (js_div (Fin b) (sent_basic stats)) (Fin 100)))"
    by simp
qed

lemma click_rate_unique_not_finite:
  assumes "UniqueLinksClicked data \<in> {Some PosInf, Some NegInf}"
  shows "safeClickRate sh data = ''0.0''"
proof -
  from assms have zero: "safeUniqueLinksClicked data = Fin 0"
    by (auto simp: safeUniqueLinksClicked_def or_zero_def)
  show ?thesis
  proof (cases "safeTotalTrackedLinks data")
    case (Fin l)
    show ?thesis
    proof (cases "0 < l")
      case True
      then have "js_div (Fin 0) (Fin l) = Fin 0" by (simp add: to_double_def)
      then have "Math_min (js_mul (js_div (Fin 0) (Fin l)) (Fin 100)) (Fin 100) = Fin 0"
        by (simp add: to_double_def)
      with True Fin zero show ?thesis by (simp add: safeClickRate_def toFixed1_zero)
    next
      case False
      with Fin show ?thesis by (simp add: safeClickRate_def)
    qed
  qed (auto simp: safeTotalTrackedLinks_def Let_def split: if_splits)
qed

lemma hundredths_3333: "hundredths 3333 = ''33.33''"
  by (simp add: hundredths_def decimal.simps digit_char_def)

lemma hundredths_12000: "hundredths 12000 = ''120.00''"
  by (simp add: hundredths_def decimal.simps digit_char_def)

lemma third_percent:
  "js_mul (js_div (Fin 1) (Fin 3)) (Fin 100) = Fin (2345624805922133 / 70368744177664)"
  by code_simp

lemma third_text: "toFixed2 sh (Fin (2345624805922133 / 70368744177664)) = ''33.33''"
proof -
  have "nat \<lfloor>\<bar>2345624805922133 / 70368744177664 :: rat\<bar> * 100 + 1 / 2\<rfloor> = 3333"
    by code_simp
  then show ?thesis by (simp add: toFixed2_def hundredths_3333)
qed

lemma over_percent: "js_mul (js_div (Fin 60) (Fin 50)) (Fin 100) = Fin 120"
  by code_simp

lemma over_text: "toFixed2 sh (Fin 120) = ''120.00''"
proof -
  have "nat \<lfloor>\<bar>120 :: rat\<bar> * 100 + 1 / 2\<rfloor> = 12000"
    by code_simp
  then show ?thesis by (simp add: toFixed2_def hundredths_12000)
qed

lemma sent_basic_3:
  "sent_basic \<lparr>InactiveMails = Some (Fin 0), BouncedMails = Some (Fin 0),
     DeliveredMails = Some (Fin 3), Opens = Some (Fin 1)\<rparr> = Fin 3"
  by code_simp

lemma sent_basic_50:
  "sent_basic \<lparr>InactiveMails = Some (Fin 0), BouncedMails = Some (Fin 0),
     DeliveredMails = Some (Fin 50), Opens = Some (Fin 60)\<rparr> = Fin 50"
  by code_simp

lemma status_500: "Number_toString sh (Fin 500) = ''500''"
  by code_simp

lemma basic_rate_positive:
  assumes "0 \<le> p" and "sent = PosInf \<or> (\<exists>s. 0 \<le> s \<and> sent = Fin s)"
  shows "(if truthy_number (Fin p) \<and> truthy_number sent
          then Some (js_mul (js_div (Fin p) sent) (Fin 100)) else None) = rate
         \<Longrightarrow> rate_text_basic sh rate = ''N/A''
           \<or> (\<exists>r. rate = Some r \<and> (r = PosInf \<or> (\<exists>q. 0 < q \<and> r = Fin q))
                  \<and> rate_text_basic sh rate = toFixed2 sh r)"
proof (cases "p = 0 \<or> sent = Fin 0")
  case True
  assume "(if truthy_number (Fin p) \<and> truthy_number sent
          then Some (js_mul (js_div (Fin p) sent) (Fin 100)) else None) = rate"
  with True have "rate = None" by auto
  then show ?thesis by (simp add: rate_text_basic_def)
next
  case False
  assume r: "(if truthy_number (Fin p) \<and> truthy_number sent
          then Some (js_mul (js_div (Fin p) sent) (Fin 100)) else None) = rate"
  from False assms(2) have pos: "sent = PosInf \<or> (\<exists>s. 0 < s \<and> sent = Fin s)" by auto
  from False pos r have rate: "rate = Some (js_mul (js_div (Fin p) sent) (Fin 100))" by auto
  from percentage_nonneg [OF assms(1) pos] consider
    "js_mul (js_div (Fin p) sent) (Fin 100) = PosInf"
    | q where "0 \<le> q" "js_mul (js_div (Fin p) sent) (Fin 100) = Fin q" by blast
  then show ?thesis
  proof cases
    case 1
    with rate show ?thesis by (simp add: rate_text_basic_def)
  next
    case 2
    with rate show ?thesis by (cases "q = 0") (auto simp: rate_text_basic_def)
  qed
qed

subsection \<open>The model of doubles at work\<close>

text \<open>The double nearest to one tenth, and a product that rounds below its exact value:
  \<^verbatim>\<open>(3 / 2000) * 100\<close> is the double just under 0.15, so that \<^verbatim>\<open>toFixed(1)\<close> gives
  \<^verbatim>\<open>0.1\<close> where exact arithmetic would be a tie.\<close>

lemma to_double_tenth: "to_double (1 / 10) = Fin (3602879701896397 / 36028797018963968)"
  by code_simp

lemma double_product_rounds_down:
  "js_mul (js_div (Fin 3) (Fin 2000)) (Fin 100) = Fin (5404319552844595 / 36028797018963968)
   \<and> toFixed1 shortest (js_mul (js_div (Fin 3) (Fin 2000)) (Fin 100)) = ''0.1''"
  by code_simp

text \<open>The statistics scenario of the specification: 60 unique opens out of 50 tracked
  messages are capped at \<^verbatim>\<open>100.0\<close>, and no tracked links give \<^verbatim>\<open>0.0\<close>.\<close>

lemma delivery_scenario:
  "delivery_text shortest
     \<lparr>Sent = Some (Fin 100), Tracked = Some (Fin 50), UniqueOpens = Some (Fin 60),
      TotalTrackedLinksSent = Some (Fin 0), UniqueLinksClicked = Some (Fin 0)\<rparr>
   = ''You sent 100 emails in the selected period.'' @ [CHR 0x0A]
     @ ''Out of 50 emails with open tracking, 100.0% were opened.'' @ [CHR 0x0A]
     @ ''Out of 0 tracked links, 0 unique links were clicked (0.0%).''"
  by code_simp

text \<open>The counts of the theorems below are finite. The open rate has no
  \<^verbatim>\<open>Number.isFinite\<close> guard: on two infinite values, which no count is, it reads
  \<^verbatim>\<open>NaN\<close>.\<close>

lemma open_rate_not_finite:
  "openRate shortest
     \<lparr>Sent = Some (Fin 100), Tracked = Some PosInf, UniqueOpens = Some PosInf,
      TotalTrackedLinksSent = Some (Fin 0), UniqueLinksClicked = Some (Fin 0)\<rparr> = ''NaN''"
  by code_simp

subsection \<open>Delivery statistics\<close>

text \<open>
  Claim C3, as amended. In the guarded and tracked revisions, for counts that are finite
  and not negative, \<^verbatim>\<open>getDeliveryStats\<close> computes the open rate as 0 when \<open>tracked\<close> is
  0 and otherwise as the lesser of \<open>uniqueOpens / tracked \<times> 100\<close> and 100, and the click
  rate as 0 when \<open>totalTrackedLinksSent\<close> is 0 or not finite and otherwise as the lesser
  of \<open>uniqueLinksClicked / totalTrackedLinksSent \<times> 100\<close> and 100, each rendered to one
  decimal place; a \<open>uniqueLinksClicked\<close> that is not finite is taken as 0, so that the
  click rate is then \<^verbatim>\<open>0.0\<close>. In the basic revision the tool has none of these counts:
  with \<open>sent\<close> the sum of \<open>InactiveMails\<close>, \<open>BouncedMails\<close> and \<open>DeliveredMails\<close>, it
  reports \<open>Opens / sent \<times> 100\<close> and \<open>BouncedMails / sent \<times> 100\<close>, not capped and
  rendered to two decimal places, and \<^verbatim>\<open>N/A\<close> when the count, \<open>sent\<close> or the rate is
  zero.
\<close>

theorem getDeliveryStats_rates_computed:
  "(Tracked data = Some (Fin t) \<and> 0 \<le> t \<and> UniqueOpens data = Some (Fin u) \<and> 0 \<le> u \<longrightarrow>
      openRate sh data = spec_openRate sh (Fin t) (Fin u))
   \<and> (TotalTrackedLinksSent data = Some l \<and> (\<forall>x. l = Fin x \<longrightarrow> 0 \<le> x)
        \<and> UniqueLinksClicked data = Some (Fin c) \<and> 0 \<le> c \<longrightarrow>
      safeClickRate sh data = spec_clickRate sh l (Fin c))
   \<and> (UniqueLinksClicked data \<in> {Some PosInf, Some NegInf} \<longrightarrow>
      safeClickRate sh data = ''0.0'')
   \<and> (InactiveMails stats = Some (Fin i) \<and> 0 \<le> i \<and> BouncedMails stats = Some (Fin b) \<and> 0 \<le> b
        \<and> DeliveredMails stats = Some (Fin d) \<and> 0 \<le> d \<and> Opens stats = Some (Fin k) \<and> 0 \<le> k \<longrightarrow>
      sent_basic stats = js_add (js_add (Fin i) (Fin b)) (Fin d)
      \<and> getDeliveryStats_handler_basic sh stringify
           (Inr \<lparr>response_ok = True, response_status = status, response_statusText = statusText,
                 response_json = Inr stats\<rparr>)
         = Inr \<lparr>content =
             [''Open Rate (last 30 days): ''
                @ (if k = 0 \<or> sent_basic stats = Fin 0
                      \<or> js_mul (js_div (Fin k) (sent_basic stats)) (Fin 100) = Fin 0
                   then ''N/A''
                   else toFixed2 sh (js_mul (js_div (Fin k) (sent_basic stats)) (Fin 100)))
                @ ''%'',
              ''Bounce Rate (last 30 days): ''
                @ (if b = 0 \<or> sent_basic stats = Fin 0
                      \<or> js_mul (js_div (Fin b) (sent_basic stats)) (Fin 100) = Fin 0
                   then ''N/A''
                   else toFixed2 sh (js_mul (js_div (Fin b) (sent_basic stats)) (Fin 100)))
                @ ''%'',
              ''Raw stats: '' @ stringify stats]\<rparr>)"
proof -
  have open_rate: "openRate sh data = spec_openRate sh (Fin t) (Fin u)"
    if "Tracked data = Some (Fin t)" "0 \<le> t" "UniqueOpens data = Some (Fin u)" "0 \<le> u"
    using that by (auto simp: openRate_def spec_openRate_def or_zero_count toFixed1_zero)
  have click_rate: "safeClickRate sh data = spec_clickRate sh l (Fin c)"
    if "TotalTrackedLinksSent data = Some l" "\<forall>x. l = Fin x \<longrightarrow> 0 \<le> x"
      "UniqueLinksClicked data = Some (Fin c)" "0 \<le> c"
  proof (cases l)
    case (Fin x)
    with that(2) have "0 \<le> x" by simp
    with Fin that(1,3) show ?thesis
      by (auto simp: safeClickRate_def safeTotalTrackedLinks_def safeUniqueLinksClicked_def
          spec_clickRate_def or_zero_count toFixed1_zero)
  qed (use that(1,3) in \<open>simp_all add: safeClickRate_def safeTotalTrackedLinks_def
          spec_clickRate_def or_zero_def toFixed1_zero\<close>)
  have basic: "sent_basic stats = js_add (js_add (Fin i) (Fin b)) (Fin d)
      \<and> getDeliveryStats_handler_basic sh stringify
           (Inr \<lparr>response_ok = True, response_status = status, response_statusText = statusText,
                 response_json = Inr stats\<rparr>)
         = Inr \<lparr>content =
             [''Open Rate (last 30 days): ''
                @ (if k = 0 \<or> sent_basic stats = Fin 0
                      \<or> js_mul (js_div (Fin k) (sent_basic stats)) (Fin 100) = Fin 0
                   then ''N/A''
                   else toFixed2 sh (js_mul (js_div (Fin k) (sent_basic stats)) (Fin 100)))
                @ ''%'',
              ''Bounce Rate (last 30 days): ''
                @ (if b = 0 \<or> sent_basic stats = Fin 0
                      \<or> js_mul (js_div (Fin b) (sent_basic stats)) (Fin 100) = Fin 0
                   then ''N/A''
                   else toFixed2 sh (js_mul (js_div (Fin b) (sent_basic stats)) (Fin 100)))
                @ ''%'',
              ''Raw stats: '' @ stringify stats]\<rparr>"
    if h: "InactiveMails stats = Some (Fin i)" "0 \<le> i" "BouncedMails stats = Some (Fin b)" "0 \<le> b"
        "DeliveredMails stats = Some (Fin d)" "0 \<le> d" "Opens stats = Some (Fin k)" "0 \<le> k"
    using sent_basic_nonneg [OF h(1-6)] basic_rates_text [OF h, of sh]
    by (simp add: getDeliveryStats_handler_basic_def)
  from open_rate click_rate basic click_rate_unique_not_finite [of data sh]
  show ?thesis by blast
qed

theorem getDeliveryStats_rates_computed_witness:
  "openRate (\<lambda>_. []) \<lparr>Sent = Some (Fin 100), Tracked = Some (Fin 50),
        UniqueOpens = Some (Fin 60), TotalTrackedLinksSent = Some PosInf,
        UniqueLinksClicked = Some (Fin 7)\<rparr> = spec_openRate (\<lambda>_. []) (Fin 50) (Fin 60)
   \<and> safeClickRate (\<lambda>_. []) \<lparr>Sent = Some (Fin 100), Tracked = Some (Fin 50),
        UniqueOpens = Some (Fin 60), TotalTrackedLinksSent = Some PosInf,
        UniqueLinksClicked = Some (Fin 7)\<rparr> = spec_clickRate (\<lambda>_. []) PosInf (Fin 7)"
  using getDeliveryStats_rates_computed [where data = "\<lparr>Sent = Some (Fin 100),
        Tracked = Some (Fin 50), UniqueOpens = Some (Fin 60),
        TotalTrackedLinksSent = Some PosInf, UniqueLinksClicked = Some (Fin 7)\<rparr>"
      and t = 50 and u = 60 and c = 7 and l = PosInf and sh = "\<lambda>_. []"]
  by simp

text \<open>
  Claim C3 as stated fails in the basic revision: one open out of three mails sent is
  reported with two decimal places, and a rate that has nothing to count reads \<^verbatim>\<open>N/A\<close>.
\<close>

theorem getDeliveryStats_basic_two_decimals_counterexample:
  "getDeliveryStats_handler_basic (\<lambda>q. []) (\<lambda>stats. [])
     (Inr \<lparr>response_ok = True, response_status = Fin 200, response_statusText = ''OK'',
           response_json = Inr \<lparr>InactiveMails = Some (Fin 0), BouncedMails = Some (Fin 0),
             DeliveredMails = Some (Fin 3), Opens = Some (Fin 1)\<rparr>\<rparr>)
   = Inr \<lparr>content = [''Open Rate (last 30 days): 33.33%'',
                      ''Bounce Rate (last 30 days): N/A%'', ''Raw stats: '']\<rparr>"
  by (simp add: getDeliveryStats_handler_basic_def openRate_basic_def bounceRate_basic_def
      rate_text_basic_def sent_basic_3 third_percent third_text
      del: js_div.simps js_mul.simps)

text \<open>
  Claim C4, as amended. In the guarded and tracked revisions, for counts that are finite
  and not negative, both rates in the reported text are the text of a number of tenths
  between 0 and 1000, that is, of a value from 0.0 to 100.0; a zero denominator gives the
  text \<^verbatim>\<open>0.0\<close>; neither rate is \<^verbatim>\<open>NaN\<close> or \<^verbatim>\<open>Infinity\<close>; and the handler resolves to
  the summary text. In the basic revision a response that is not \<^verbatim>\<open>ok\<close> makes the
  handler throw; otherwise each reported rate is \<^verbatim>\<open>N/A\<close>, which it is whenever its count
  or \<open>sent\<close> is zero, or the two-decimal text of a value above zero that is not capped:
  60 opens out of 50 mails sent read \<^verbatim>\<open>120.00\<close>.
\<close>

theorem getDeliveryStats_rates_range:
  "(Tracked data = Some (Fin t) \<and> 0 \<le> t \<and> UniqueOpens data = Some (Fin u) \<and> 0 \<le> u
      \<and> TotalTrackedLinksSent data = Some (Fin l) \<and> 0 \<le> l
      \<and> UniqueLinksClicked data = Some (Fin c) \<and> 0 \<le> c \<longrightarrow>
      (\<exists>n m. n \<le> 1000 \<and> m \<le> 1000
         \<and> openRate sh data = tenths n \<and> safeClickRate sh data = tenths m
         \<and> getDeliveryStats_handler sh (Inr data) = \<lparr>content =
             [''You sent '' @ Number_toString sh (or_zero (Sent data))
              @ '' emails in the selected period.'' @ [CHR 0x0A]
              @ ''Out of '' @ Number_toString sh (Fin t)
              @ '' emails with open tracking, '' @ tenths n @ ''% were opened.'' @ [CHR 0x0A]
              @ ''Out of '' @ Number_toString sh (Fin l)
              @ '' tracked links, '' @ Number_toString sh (Fin c)
              @ '' unique links were clicked ('' @ tenths m @ ''%).'']\<rparr>)
      \<and> (t = 0 \<longrightarrow> openRate sh data = ''0.0'')
      \<and> (l = 0 \<longrightarrow> safeClickRate sh data = ''0.0'')
      \<and> openRate sh data \<notin> {''NaN'', ''Infinity''}
      \<and> safeClickRate sh data \<notin> {''NaN'', ''Infinity''})
   \<and> (\<not> response_ok response \<longrightarrow>
      getDeliveryStats_handler_basic sh stringify (Inr response)
        = Inl (Error (''Failed to fetch delivery stats: ''
                 @ Number_toString sh (response_status response)
                 @ '' '' @ response_statusText response)))
   \<and> (response_ok response \<and> response_json response = Inr stats
        \<and> InactiveMails stats = Some (Fin i) \<and> 0 \<le> i \<and> BouncedMails stats = Some (Fin b) \<and> 0 \<le> b
        \<and> DeliveredMails stats = Some (Fin d) \<and> 0 \<le> d \<and> Opens stats = Some (Fin k) \<and> 0 \<le> k \<longrightarrow>
      (\<exists>t1 t2. getDeliveryStats_handler_basic sh stringify (Inr response)
           = Inr \<lparr>content = [''Open Rate (last 30 days): '' @ t1 @ ''%'',
                              ''Bounce Rate (last 30 days): '' @ t2 @ ''%'',
                              ''Raw stats: '' @ stringify stats]\<rparr>
         \<and> (k = 0 \<or> sent_basic stats = Fin 0 \<longrightarrow> t1 = ''N/A'')
         \<and> (b = 0 \<or> sent_basic stats = Fin 0 \<longrightarrow> t2 = ''N/A'')
         \<and> (t1 = ''N/A'' \<or> (\<exists>r. openRate_basic stats = Some r
                \<and> (r = PosInf \<or> (\<exists>q. 0 < q \<and> r = Fin q)) \<and> t1 = toFixed2 sh r))
         \<and> (t2 = ''N/A'' \<or> (\<exists>r. bounceRate_basic stats = Some r
                \<and> (r = PosInf \<or> (\<exists>q. 0 < q \<and> r = Fin q)) \<and> t2 = toFixed2 sh r))))
   \<and> rate_text_basic sh (openRate_basic
        \<lparr>InactiveMails = Some (Fin 0), BouncedMails = Some (Fin 0),
         DeliveredMails = Some (Fin 50), Opens = Some (Fin 60)\<rparr>) = ''120.00''"
proof -
  have tracked: "(\<exists>n m. n \<le> 1000 \<and> m \<le> 1000
         \<and> openRate sh data = tenths n \<and> safeClickRate sh data = tenths m
         \<and> getDeliveryStats_handler sh (Inr data) = \<lparr>content =
             [''You sent '' @ Number_toString sh (or_zero (Sent data))
              @ '' emails in the selected period.'' @ [CHR 0x0A]
              @ ''Out of '' @ Number_toString sh (Fin t)
              @ '' emails with open tracking, '' @ tenths n @ ''% were opened.'' @ [CHR 0x0A]
              @ ''Out of '' @ Number_toString sh (Fin l)
              @ '' tracked links, '' @ Number_toString sh (Fin c)
              @ '' unique links were clicked ('' @ tenths m @ ''%).'']\<rparr>)
      \<and> (t = 0 \<longrightarrow> openRate sh data = ''0.0'')
      \<and> (l = 0 \<longrightarrow> safeClickRate sh data = ''0.0'')
      \<and> openRate sh data \<notin> {''NaN'', ''Infinity''}
      \<and> safeClickRate sh data \<notin> {''NaN'', ''Infinity''}"
    if h: "Tracked data = Some (Fin t)" "0 \<le> t" "UniqueOpens data = Some (Fin u)" "0 \<le> u"
      "TotalTrackedLinksSent data = Some (Fin l)" "0 \<le> l"
      "UniqueLinksClicked data = Some (Fin c)" "0 \<le> c"
  proof -
    have open_zero: "openRate sh data = ''0.0''" if "t = 0"
      using that h(1) by (simp add: openRate_def or_zero_count)
    have click_zero: "safeClickRate sh data = ''0.0''" if "l = 0"
      using that h(5) by (simp add: safeClickRate_def safeTotalTrackedLinks_def or_zero_count)
    have "\<exists>n\<le>1000. openRate sh data = tenths n"
    proof (cases "t = 0")
      case True
      with open_zero tenths_zero show ?thesis by auto
    next
      case False
      with h(2) have "0 < t" by simp
      from capped_percentage [OF h(4) this] obtain w where
        w: "0 \<le> w" "w \<le> 100"
           "Math_min (js_mul (js_div (Fin u) (Fin t)) (Fin 100)) (Fin 100) = Fin w" by blast
      from toFixed1_percentage [OF w(1,2)] obtain n where
        "n \<le> 1000" "toFixed1 sh (Fin w) = tenths n" by blast
      with w(3) \<open>0 < t\<close> h(1,3) show ?thesis
        by (auto simp: openRate_def or_zero_count)
    qed
    then obtain n where n: "n \<le> 1000" "openRate sh data = tenths n" by blast
    have "\<exists>m\<le>1000. safeClickRate sh data = tenths m"
    proof (cases "l = 0")
      case True
      with click_zero tenths_zero show ?thesis by auto
    next
      case False
      with h(6) have "0 < l" by simp
      from capped_percentage [OF h(8) this] obtain w where
        w: "0 \<le> w" "w \<le> 100"
           "Math_min (js_mul (js_div (Fin c) (Fin l)) (Fin 100)) (Fin 100) = Fin w" by blast
      from toFixed1_percentage [OF w(1,2)] obtain m where
        "m \<le> 1000" "toFixed1 sh (Fin w) = tenths m" by blast
      with w(3) \<open>0 < l\<close> h(5,7) show ?thesis
        by (auto simp: safeClickRate_def safeTotalTrackedLinks_def safeUniqueLinksClicked_def
            or_zero_count)
    qed
    then obtain m where m: "m \<le> 1000" "safeClickRate sh data = tenths m" by blast
    have report: "getDeliveryStats_handler sh (Inr data) = \<lparr>content =
             [''You sent '' @ Number_toString sh (or_zero (Sent data))
              @ '' emails in the selected period.'' @ [CHR 0x0A]
              @ ''Out of '' @ Number_toString sh (Fin t)
              @ '' emails with open tracking, '' @ tenths n @ ''% were opened.'' @ [CHR 0x0A]
              @ ''Out of '' @ Number_toString sh (Fin l)
              @ '' tracked links, '' @ Number_toString sh (Fin c)
              @ '' unique links were clicked ('' @ tenths m @ ''%).'']\<rparr>"
      using h(1,5,7) n(2) m(2)
      by (simp add: getDeliveryStats_handler_def delivery_text_def safeTotalTrackedLinks_def
          safeUniqueLinksClicked_def or_zero_count)
    have "openRate sh data \<notin> {''NaN'', ''Infinity''}"
      using n(2) tenths_not_NaN tenths_not_Infinity by (metis insertE singletonD)
    moreover have "safeClickRate sh data \<notin> {''NaN'', ''Infinity''}"
      using m(2) tenths_not_NaN tenths_not_Infinity by (metis insertE singletonD)
    ultimately show ?thesis
      using open_zero click_zero n m report by blast
  qed
  have not_ok: "getDeliveryStats_handler_basic sh stringify (Inr response)
        = Inl (Error (''Failed to fetch delivery stats: ''
                 @ Number_toString sh (response_status response)
                 @ '' '' @ response_statusText response))"
    if "\<not> response_ok response"
    using that by (simp add: getDeliveryStats_handler_basic_def)
  have basic: "\<exists>t1 t2. getDeliveryStats_handler_basic sh stringify (Inr response)
           = Inr \<lparr>content = [''Open Rate (last 30 days): '' @ t1 @ ''%'',
                              ''Bounce Rate (last 30 days): '' @ t2 @ ''%'',
                              ''Raw stats: '' @ stringify stats]\<rparr>
         \<and> (k = 0 \<or> sent_basic stats = Fin 0 \<longrightarrow> t1 = ''N/A'')
         \<and> (b = 0 \<or> sent_basic stats = Fin 0 \<longrightarrow> t2 = ''N/A'')
         \<and> (t1 = ''N/A'' \<or> (\<exists>r. openRate_basic stats = Some r
                \<and> (r = PosInf \<or> (\<exists>q. 0 < q \<and> r = Fin q)) \<and> t1 = toFixed2 sh r))
         \<and> (t2 = ''N/A'' \<or> (\<exists>r. bounceRate_basic stats = Some r
                \<and> (r = PosInf \<or> (\<exists>q. 0 < q \<and> r = Fin q)) \<and> t2 = toFixed2 sh r))"
    if ok: "response_ok response" "response_json response = Inr stats"
      and h: "InactiveMails stats = Some (Fin i)" "0 \<le> i" "BouncedMails stats = Some (Fin b)"
        "0 \<le> b" "DeliveredMails stats = Some (Fin d)" "0 \<le> d" "Opens stats = Some (Fin k)"
        "0 \<le> k"
  proof -
    from sent_basic_nonneg [OF h(1-6)]
    have sent: "sent_basic stats = PosInf \<or> (\<exists>s. 0 \<le> s \<and> sent_basic stats = Fin s)"
      by blast
    have o: "(if truthy_number (Fin k) \<and> truthy_number (sent_basic stats)
          then Some (js_mul (js_div (Fin k) (sent_basic stats)) (Fin 100)) else None)
        = openRate_basic stats"
      using h(7) by (simp add: openRate_basic_def)
    have bo: "(if truthy_number (Fin b) \<and> truthy_number (sent_basic stats)
          then Some (js_mul (js_div (Fin b) (sent_basic stats)) (Fin 100)) else None)
        = bounceRate_basic stats"
      using h(3) by (simp add: bounceRate_basic_def)
    let ?t1 = "rate_text_basic sh (openRate_basic stats)"
    let ?t2 = "rate_text_basic sh (bounceRate_basic stats)"
    have "getDeliveryStats_handler_basic sh stringify (Inr response)
           = Inr \<lparr>content = [''Open Rate (last 30 days): '' @ ?t1 @ ''%'',
                              ''Bounce Rate (last 30 days): '' @ ?t2 @ ''%'',
                              ''Raw stats: '' @ stringify stats]\<rparr>"
      using ok by (simp add: getDeliveryStats_handler_basic_def)
    moreover have "k = 0 \<or> sent_basic stats = Fin 0 \<longrightarrow> ?t1 = ''N/A''"
      using basic_rates_text(1) [OF h, of sh] by auto
    moreover have "b = 0 \<or> sent_basic stats = Fin 0 \<longrightarrow> ?t2 = ''N/A''"
      using basic_rates_text(2) [OF h, of sh] by auto
    moreover note basic_rate_positive [OF h(8) sent o, of sh]
      basic_rate_positive [OF h(4) sent bo, of sh]
    ultimately show ?thesis by blast
  qed
  have uncapped: "rate_text_basic sh (openRate_basic
        \<lparr>InactiveMails = Some (Fin 0), BouncedMails = Some (Fin 0),
         DeliveredMails = Some (Fin 50), Opens = Some (Fin 60)\<rparr>) = ''120.00''"
    by (simp add: openRate_basic_def rate_text_basic_def sent_basic_50 over_percent over_text
        del: js_div.simps js_mul.simps)
  from tracked not_ok basic uncapped show ?thesis by blast
qed

theorem getDeliveryStats_rates_range_witness:
  "(\<exists>n\<le>1000. openRate (\<lambda>_. []) \<lparr>Sent = Some (Fin 100), Tracked = Some (Fin 50),
        UniqueOpens = Some (Fin 60), TotalTrackedLinksSent = Some (Fin 0),
        UniqueLinksClicked = Some (Fin 0)\<rparr> = tenths n)
   \<and> safeClickRate (\<lambda>_. []) \<lparr>Sent = Some (Fin 100), Tracked = Some (Fin 50),
        UniqueOpens = Some (Fin 60), TotalTrackedLinksSent = Some (Fin 0),
        UniqueLinksClicked = Some (Fin 0)\<rparr> = ''0.0''"
  (is "(\<exists>n\<le>1000. openRate ?sh ?data = tenths n) \<and> safeClickRate ?sh ?data = ''0.0''")
proof -
  have "Tracked ?data = Some (Fin 50) \<and> (0::rat) \<le> 50
      \<and> UniqueOpens ?data = Some (Fin 60) \<and> (0::rat) \<le> 60
      \<and> TotalTrackedLinksSent ?data = Some (Fin 0) \<and> (0::rat) \<le> 0
      \<and> UniqueLinksClicked ?data = Some (Fin 0) \<and> (0::rat) \<le> 0"
    by simp
  with getDeliveryStats_rates_range [where data = ?data and sh = ?sh
      and t = 50 and u = 60 and l = 0 and c = 0]
  show ?thesis by blast
qed

text \<open>
  Claim C4 as stated fails in the basic revision: a rate above 100 is reported, a zero
  count gives \<^verbatim>\<open>N/A\<close> and not \<^verbatim>\<open>0.0\<close>, and a failed response is an exception.
\<close>

theorem getDeliveryStats_basic_uncapped_counterexample:
  "getDeliveryStats_handler_basic (\<lambda>q. []) (\<lambda>stats. [])
     (Inr \<lparr>response_ok = True, response_status = Fin 200, response_statusText = ''OK'',
           response_json = Inr \<lparr>InactiveMails = Some (Fin 0), BouncedMails = Some (Fin 0),
             DeliveredMails = Some (Fin 50), Opens = Some (Fin 60)\<rparr>\<rparr>)
   = Inr \<lparr>content = [''Open Rate (last 30 days): 120.00%'',
                      ''Bounce Rate (last 30 days): N/A%'', ''Raw stats: '']\<rparr>
   \<and> getDeliveryStats_handler_basic (\<lambda>q. []) (\<lambda>stats. [])
     (Inr \<lparr>response_ok = False, response_status = Fin 500,
           response_statusText = ''Internal Server Error'',
           response_json = Inl (Error ''Unexpected end of JSON input'')\<rparr>)
   = Inl (Error ''Failed to fetch delivery stats: 500 Internal Server Error'')"
  by (simp add: getDeliveryStats_handler_basic_def openRate_basic_def bounceRate_basic_def
      rate_text_basic_def sent_basic_50 over_percent over_text status_500
      del: js_div.simps js_mul.simps)

subsection \<open>Startup\<close>

text \<open>
  Claim C7. The process ends with an uncaught error, before any tool is registered,
  exactly when one of the three environment variables is missing or empty. When the
  server does listen, all the tools are registered and the three configured values are
  the non-empty values of the environment: there is no partial startup.
\<close>

theorem startup_requires_configuration:
  "((\<exists>e. startup tools connect_ok env = Crashed e) \<longleftrightarrow>
      env ''POSTMARK_SERVER_TOKEN'' \<in> {None, Some []}
      \<or> env ''DEFAULT_SENDER_EMAIL'' \<in> {None, Some []}
      \<or> env ''DEFAULT_MESSAGE_STREAM'' \<in> {None, Some []})
   \<and> (startup tools connect_ok env = Listening cfg ts \<longrightarrow>
        ts = tools
        \<and> env ''POSTMARK_SERVER_TOKEN'' = Some (serverToken cfg) \<and> serverToken cfg \<noteq> []
        \<and> env ''DEFAULT_SENDER_EMAIL'' = Some (defaultSender cfg) \<and> defaultSender cfg \<noteq> []
        \<and> env ''DEFAULT_MESSAGE_STREAM'' = Some (defaultMessageStream cfg)
        \<and> defaultMessageStream cfg \<noteq> [])"
  by (auto simp: startup_def load_config_def unset_def split: option.splits if_splits)

theorem startup_requires_configuration_witness:
  "startup tools_tracked True
     [''POSTMARK_SERVER_TOKEN'' \<mapsto> ''token'', ''DEFAULT_SENDER_EMAIL'' \<mapsto> '''']
   = Crashed (Error ''DEFAULT_SENDER_EMAIL is not set. Please configure it in your .env file.'')"
  using startup_requires_configuration [of tools_tracked True
     "[''POSTMARK_SERVER_TOKEN'' \<mapsto> ''token'', ''DEFAULT_SENDER_EMAIL'' \<mapsto> '''']"]
  by (simp add: startup_def load_config_def unset_def)

subsection \<open>Outbound messages\<close>

text \<open>
  Claim C8. A \<^verbatim>\<open>getOutboundMessages\<close> call that supplies neither \<open>count\<close> nor
  \<open>offset\<close> issues the same provider request and settles in the same way as a call that
  supplies \<open>count = 10\<close> and \<open>offset = 0\<close>, at the handler and through the dispatcher.
\<close>

theorem getOutboundMessages_defaults:
  "getOutboundMessages_handler client stringify \<lparr>arg_count = None, arg_offset = None\<rparr>
     = getOutboundMessages_handler client stringify
         \<lparr>arg_count = Some (Fin 10), arg_offset = Some (Fin 0)\<rparr>
   \<and> fst (getOutboundMessages_handler client stringify \<lparr>arg_count = None, arg_offset = None\<rparr>)
     = [(Fin 10, Fin 0)]
   \<and> dispatch getOutboundMessages_schema (getOutboundMessages_handler client stringify) []
     = dispatch getOutboundMessages_schema (getOutboundMessages_handler client stringify)
         [(''count'', JNum (Fin 10)), (''offset'', JNum (Fin 0))]"
  by (simp add: getOutboundMessages_handler_def dispatch_def getOutboundMessages_schema_def Let_def
      z_optional_def z_number_def split: sum.splits)

subsection \<open>Sender and message stream\<close>

text \<open>
  Claim C1, as amended. In every revision the \<^verbatim>\<open>sendEmail\<close> handler issues exactly one
  provider request. Its \<open>From\<close> is the caller's \<open>from\<close> when that is present and not
  empty, else the configured default sender; its \<open>MessageStream\<close> is the caller's
  \<open>messageStream\<close> when that is present and not empty, else the configured default stream.
\<close>

theorem sendEmail_sender_and_stream:
  "\<forall>h \<in> {sendEmail_handler_basic cfg client a, sendEmail_handler_guarded cfg client a,
          sendEmail_handler_tracked cfg client a}.
      \<exists>p. fst h = [p]
        \<and> From p = (case arg_from a of None \<Rightarrow> defaultSender cfg
                     | Some f \<Rightarrow> if f = [] then defaultSender cfg else f)
        \<and> MessageStream p = (case arg_messageStream a of None \<Rightarrow> defaultMessageStream cfg
                     | Some m \<Rightarrow> if m = [] then defaultMessageStream cfg else m)"
  by (auto simp: sendEmail_handler_tracked_def sendEmail_handler_guarded_def
      sendEmail_handler_basic_def sendEmail_payload_def sendEmail_payload_basic_def
      or_default_def Let_def split: sum.splits option.splits)

theorem sendEmail_sender_and_stream_witness:
  "map From (fst (sendEmail_handler_tracked scenario_config (\<lambda>p. Inr \<lparr>MessageID = ''id-1''\<rparr>)
      \<lparr>arg_to = ''a@b.com'', arg_subject = ''S'', arg_textBody = ''B'',
       arg_from = Some ''me@x.com'', arg_messageStream = None, arg_tag = None\<rparr>))
   = [''me@x.com'']
   \<and> map MessageStream (fst (sendEmail_handler_tracked scenario_config (\<lambda>p. Inr \<lparr>MessageID = ''id-1''\<rparr>)
      \<lparr>arg_to = ''a@b.com'', arg_subject = ''S'', arg_textBody = ''B'',
       arg_from = Some ''me@x.com'', arg_messageStream = None, arg_tag = None\<rparr>))
   = [''outbound'']"
  using sendEmail_sender_and_stream [of scenario_config "\<lambda>p. Inr \<lparr>MessageID = ''id-1''\<rparr>"
      "\<lparr>arg_to = ''a@b.com'', arg_subject = ''S'', arg_textBody = ''B'',
       arg_from = Some ''me@x.com'', arg_messageStream = None, arg_tag = None\<rparr>"]
  by (auto simp: scenario_config_def)

text \<open>
  Claim C1 as stated, with "when present" alone, fails on a \<open>from\<close> and a
  \<open>messageStream\<close> that are present and empty, which the schema accepts: the request
  carries the defaults, not the empty strings supplied.
\<close>

theorem sendEmail_empty_from_counterexample:
  "map From (fst (sendEmail_handler_tracked scenario_config (\<lambda>p. Inr \<lparr>MessageID = ''id-1''\<rparr>)
      \<lparr>arg_to = ''a@b.com'', arg_subject = ''S'', arg_textBody = ''B'',
       arg_from = Some [], arg_messageStream = Some [], arg_tag = None\<rparr>))
   \<noteq> [[]]
   \<and> map From (fst (sendEmail_handler_tracked scenario_config (\<lambda>p. Inr \<lparr>MessageID = ''id-1''\<rparr>)
      \<lparr>arg_to = ''a@b.com'', arg_subject = ''S'', arg_textBody = ''B'',
       arg_from = Some [], arg_messageStream = Some [], arg_tag = None\<rparr>))
   = [''info@x.com'']
   \<and> map MessageStream (fst (sendEmail_handler_tracked scenario_config (\<lambda>p. Inr \<lparr>MessageID = ''id-1''\<rparr>)
      \<lparr>arg_to = ''a@b.com'', arg_subject = ''S'', arg_textBody = ''B'',
       arg_from = Some [], arg_messageStream = Some [], arg_tag = None\<rparr>))
   = [''outbound'']"
  by (simp add: sendEmail_handler_tracked_def sendEmail_payload_def scenario_config_def
      or_default_def tag_given_def)

text \<open>
  Claim C9, as amended. In the revisions that have the tool, \<^verbatim>\<open>sendEmailBatch\<close> issues
  one provider request, a batch as long as the list of messages and in its order. The
  \<open>i\<close>-th entry has the \<open>To\<close>, \<open>Subject\<close> and \<open>TextBody\<close> of the \<open>i\<close>-th message; its
  \<open>From\<close> is that message's \<open>from\<close> when present and not empty, else the default sender;
  its \<open>MessageStream\<close> is that message's \<open>messageStream\<close> when present and not empty,
  else the default stream.
\<close>

theorem sendEmailBatch_entries:
  "\<forall>h \<in> {sendEmailBatch_handler_basic cfg client stringify messages,
          sendEmailBatch_handler_tracked cfg client stringify messages}.
      \<exists>batch. fst h = [batch] \<and> length batch = length messages
        \<and> (\<forall>i < length messages.
              From (batch ! i) = (case arg_from (messages ! i) of None \<Rightarrow> defaultSender cfg
                     | Some f \<Rightarrow> if f = [] then defaultSender cfg else f)
            \<and> MessageStream (batch ! i) =
                  (case arg_messageStream (messages ! i) of None \<Rightarrow> defaultMessageStream cfg
                     | Some m \<Rightarrow> if m = [] then defaultMessageStream cfg else m)
            \<and> To (batch ! i) = arg_to (messages ! i)
            \<and> Subject (batch ! i) = arg_subject (messages ! i)
            \<and> TextBody (batch ! i) = arg_textBody (messages ! i))"
  by (auto simp: sendEmailBatch_handler_basic_def sendEmailBatch_handler_tracked_def
      sendEmail_payload_basic_def batch_entry_tracked_def or_default_def Let_def
      split: sum.splits option.splits)

theorem sendEmailBatch_entries_witness:
  "map From (concat (fst (sendEmailBatch_handler_tracked scenario_config (\<lambda>b. Inr JNull) (\<lambda>j. [])
      [\<lparr>arg_to = ''a@b.com'', arg_subject = ''S'', arg_textBody = ''B'',
        arg_from = Some ''me@x.com'', arg_messageStream = None\<rparr>,
       \<lparr>arg_to = ''c@d.com'', arg_subject = ''T'', arg_textBody = ''C'',
        arg_from = None, arg_messageStream = Some ''broadcast''\<rparr>])))
   = [''me@x.com'', ''info@x.com'']"
  using sendEmailBatch_entries [of scenario_config "\<lambda>b. Inr JNull" "\<lambda>j. []"
      "[\<lparr>arg_to = ''a@b.com'', arg_subject = ''S'', arg_textBody = ''B'',
        arg_from = Some ''me@x.com'', arg_messageStream = None\<rparr>,
       \<lparr>arg_to = ''c@d.com'', arg_subject = ''T'', arg_textBody = ''C'',
        arg_from = None, arg_messageStream = Some ''broadcast''\<rparr>]"]
  by (simp add: sendEmailBatch_handler_tracked_def batch_entry_tracked_def or_default_def
      scenario_config_def)

text \<open>
  Claim C9 as stated fails on a message whose \<open>from\<close> is present and empty: its entry
  carries the default sender.
\<close>

theorem sendEmailBatch_empty_from_counterexample:
  "map From (concat (fst (sendEmailBatch_handler_tracked scenario_config (\<lambda>b. Inr JNull) (\<lambda>j. [])
      [\<lparr>arg_to = ''a@b.com'', arg_subject = ''S'', arg_textBody = ''B'',
        arg_from = Some ''me@x.com'', arg_messageStream = None\<rparr>,
       \<lparr>arg_to = ''c@d.com'', arg_subject = ''T'', arg_textBody = ''C'',
        arg_from = Some [], arg_messageStream = Some []\<rparr>])))
   \<noteq> [''me@x.com'', []]
   \<and> map From (concat (fst (sendEmailBatch_handler_tracked scenario_config (\<lambda>b. Inr JNull) (\<lambda>j. [])
      [\<lparr>arg_to = ''a@b.com'', arg_subject = ''S'', arg_textBody = ''B'',
        arg_from = Some ''me@x.com'', arg_messageStream = None\<rparr>,
       \<lparr>arg_to = ''c@d.com'', arg_subject = ''T'', arg_textBody = ''C'',
        arg_from = Some [], arg_messageStream = Some []\<rparr>])))
   = [''me@x.com'', ''info@x.com'']"
  by (simp add: sendEmailBatch_handler_tracked_def batch_entry_tracked_def or_default_def
      scenario_config_def)

subsection \<open>Template identifier\<close>

lemma missing_template_identifier:
  assumes "tpl_templateId a = None" and "tpl_templateAlias a = None"
  shows "sendEmailWithTemplate_payload cfg a
           = Inl (Error ''Either templateId or templateAlias must be provided.'')"
  using assms by (simp add: sendEmailWithTemplate_payload_def truthy_id_def truthy_string_def)

lemma template_schema_absent:
  assumes "sendEmailWithTemplate_schema isEmail raw = Some a"
    and "map_of raw ''templateId'' = None" and "map_of raw ''templateAlias'' = None"
  shows "tpl_templateId a = None \<and> tpl_templateAlias a = None"
  using assms
  by (auto simp: sendEmailWithTemplate_schema_def z_optional_def bind_eq_Some_conv)

text \<open>
  Claim C2. A \<^verbatim>\<open>sendEmailWithTemplate\<close> call with neither \<open>templateId\<close> nor
  \<open>templateAlias\<close> issues no provider request and fails on its arguments. At the handler
  of the tracked revision the failure is the error thrown, and in the guarded revision
  the failure text built from it. Through the dispatcher the call is either rejected by
  the schema or fails in that way; in the basic revision, whose \<open>templateId\<close> is
  required, the schema rejects it.
\<close>

theorem sendEmailWithTemplate_needs_identifier:
  "(tpl_templateId a = None \<and> tpl_templateAlias a = None \<longrightarrow>
      sendEmailWithTemplate_handler_tracked cfg client a
        = ([], Inl (Error ''Either templateId or templateAlias must be provided.''))
    \<and> sendEmailWithTemplate_handler_guarded cfg client a
        = ([], Inr \<lparr>content = [''Failed to send template email: ''
                   @ ''Either templateId or templateAlias must be provided.'']\<rparr>))
   \<and> (map_of raw ''templateId'' = None \<and> map_of raw ''templateAlias'' = None \<longrightarrow>
      dispatch (sendEmailWithTemplate_schema isEmail)
          (sendEmailWithTemplate_handler_tracked cfg client) raw
        \<in> {([], InvalidArgument),
           ([], Threw (Error ''Either templateId or templateAlias must be provided.''))}
    \<and> dispatch (sendEmailWithTemplate_schema isEmail)
          (sendEmailWithTemplate_handler_guarded cfg client) raw
        \<in> {([], InvalidArgument),
           ([], Returned \<lparr>content = [''Failed to send template email: ''
                   @ ''Either templateId or templateAlias must be provided.'']\<rparr>)})
   \<and> (map_of raw ''templateId'' = None \<longrightarrow>
      dispatch (sendEmailWithTemplate_schema_basic isEmail)
          (sendEmailWithTemplate_handler_basic cfg client) raw
        = ([], InvalidArgument))"
proof -
  have basic: "dispatch (sendEmailWithTemplate_schema_basic isEmail)
          (sendEmailWithTemplate_handler_basic cfg client) raw = ([], InvalidArgument)"
    if "map_of raw ''templateId'' = None"
  proof -
    from that have "sendEmailWithTemplate_schema_basic isEmail raw = None"
      by (simp add: sendEmailWithTemplate_schema_basic_def z_number_def bind_eq_None_conv)
    then show ?thesis by (simp add: dispatch_def)
  qed
  have handler: "sendEmailWithTemplate_handler_tracked cfg client b
        = ([], Inl (Error ''Either templateId or templateAlias must be provided.''))
    \<and> sendEmailWithTemplate_handler_guarded cfg client b
        = ([], Inr \<lparr>content = [''Failed to send template email: ''
                   @ ''Either templateId or templateAlias must be provided.'']\<rparr>)"
    if "tpl_templateId b = None" and "tpl_templateAlias b = None" for b
    using missing_template_identifier [OF that, of cfg]
    by (simp add: sendEmailWithTemplate_handler_tracked_def
        sendEmailWithTemplate_handler_guarded_def message_or_unknown_def Error_def)
  have "dispatch (sendEmailWithTemplate_schema isEmail)
          (sendEmailWithTemplate_handler_tracked cfg client) raw
        \<in> {([], InvalidArgument),
           ([], Threw (Error ''Either templateId or templateAlias must be provided.''))}
    \<and> dispatch (sendEmailWithTemplate_schema isEmail)
          (sendEmailWithTemplate_handler_guarded cfg client) raw
        \<in> {([], InvalidArgument),
           ([], Returned \<lparr>content = [''Failed to send template email: ''
                   @ ''Either templateId or templateAlias must be provided.'']\<rparr>)}"
    if absent: "map_of raw ''templateId'' = None" "map_of raw ''templateAlias'' = None"
  proof (cases "sendEmailWithTemplate_schema isEmail raw")
    case None
    then show ?thesis by (simp add: dispatch_def)
  next
    case (Some b)
    from template_schema_absent [OF Some absent] handler [of b]
    show ?thesis using Some by (simp add: dispatch_def)
  qed
  with handler [of a] basic show ?thesis by blast
qed

theorem sendEmailWithTemplate_needs_identifier_witness:
  "dispatch (sendEmailWithTemplate_schema (\<lambda>s. CHR ''@'' \<in> set s))
      (sendEmailWithTemplate_handler_tracked scenario_config (\<lambda>p. Inr \<lparr>MessageID = ''id-1''\<rparr>))
      [(''to'', JStr ''a@b.com''), (''templateModel'', JObj [(''name'', JStr ''Ann'')]),
       (''trackOpens'', JBool True), (''trackLinks'', JStr ''HtmlAndText'')]
   = ([], Threw (Error ''Either templateId or templateAlias must be provided.''))"
  using sendEmailWithTemplate_needs_identifier [where
      raw = "[(''to'', JStr ''a@b.com''), (''templateModel'', JObj [(''name'', JStr ''Ann'')]),
       (''trackOpens'', JBool True), (''trackLinks'', JStr ''HtmlAndText'')]"
      and isEmail = "\<lambda>s. CHR ''@'' \<in> set s" and cfg = scenario_config
      and client = "\<lambda>p. Inr \<lparr>MessageID = ''id-1''\<rparr>"]
  by (simp add: dispatch_def sendEmailWithTemplate_schema_def z_email_def z_optional_def
      z_passthrough_def z_literal_true_def z_literal_def)

subsection \<open>Tracking fields and tag\<close>

lemma js_trim_Nil: "js_trim [] = []"
  by (simp add: js_trim_def)

lemma tag_given_iff: "tag_given tag \<longleftrightarrow> (\<exists>t. tag = Some t \<and> js_trim t \<noteq> [])"
  by (auto simp: tag_given_def js_trim_Nil split: option.splits)

lemma those_map_Some:
  "those (map f xs) = Some ys \<Longrightarrow> \<forall>x \<in> set xs. \<exists>y. f x = Some y"
  by (induction xs arbitrary: ys) (auto split: option.splits)

lemma z_literal_true_Some:
  "z_literal_true v = Some b \<Longrightarrow> v = Some (JBool True)"
  by (auto simp: z_literal_true_def split: option.splits json.splits bool.splits)

lemma z_literal_Some: "z_literal lit v = Some s \<Longrightarrow> v = Some (JStr lit)"
  by (auto simp: z_literal_def split: option.splits json.splits if_splits)

lemma sendEmail_schema_literals:
  assumes "sendEmail_schema isEmail raw = Some a"
  shows "map_of raw ''trackOpens'' = Some (JBool True)
       \<and> map_of raw ''trackLinks'' = Some (JStr ''HtmlAndText'')"
  using assms
  by (auto simp: sendEmail_schema_def bind_eq_Some_conv
      dest: z_literal_true_Some z_literal_Some)

lemma sendEmailWithTemplate_schema_literals:
  assumes "sendEmailWithTemplate_schema isEmail raw = Some a"
  shows "map_of raw ''trackOpens'' = Some (JBool True)
       \<and> map_of raw ''trackLinks'' = Some (JStr ''HtmlAndText'')"
  using assms
  by (auto simp: sendEmailWithTemplate_schema_def bind_eq_Some_conv
      dest: z_literal_true_Some z_literal_Some)

lemma message_schema_tracked_literals:
  assumes "message_schema_tracked isEmail (Some m) = Some a"
  shows "\<exists>msg. m = JObj msg \<and> map_of msg ''trackOpens'' = Some (JBool True)
       \<and> map_of msg ''trackLinks'' = Some (JStr ''HtmlAndText'')"
  using assms
  by (auto simp: message_schema_tracked_def bind_eq_Some_conv
      split: json.splits dest: z_literal_true_Some z_literal_Some)

lemma sendEmailBatch_schema_literals:
  assumes "sendEmailBatch_schema_tracked isEmail raw = Some ms"
  shows "\<exists>xs. map_of raw ''messages'' = Some (JArr xs)
       \<and> (\<forall>m \<in> set xs. \<exists>msg. m = JObj msg
             \<and> map_of msg ''trackOpens'' = Some (JBool True)
             \<and> map_of msg ''trackLinks'' = Some (JStr ''HtmlAndText''))"
proof -
  from assms obtain xs where xs: "map_of raw ''messages'' = Some (JArr xs)"
    and all: "those (map (\<lambda>x. message_schema_tracked isEmail (Some x)) xs) = Some ms"
    by (auto simp: sendEmailBatch_schema_tracked_def z_array_def
        split: option.splits json.splits)
  from those_map_Some [OF all] message_schema_tracked_literals
  have "\<forall>m \<in> set xs. \<exists>msg. m = JObj msg
             \<and> map_of msg ''trackOpens'' = Some (JBool True)
             \<and> map_of msg ''trackLinks'' = Some (JStr ''HtmlAndText'')"
    by blast
  with xs show ?thesis by blast
qed

text \<open>
  Claim C10. In the guarded and tracked revisions every request issued by \<^verbatim>\<open>sendEmail\<close>
  and \<^verbatim>\<open>sendEmailWithTemplate\<close>, and every entry of a batch issued by
  \<^verbatim>\<open>sendEmailBatch\<close>, has \<open>TrackOpens = true\<close> and \<open>TrackLinks = "HtmlAndText"\<close>,
  whatever the arguments. Arguments pass the schema of one of these tools only if
  \<open>trackOpens\<close> is \<open>true\<close> and \<open>trackLinks\<close> is \<open>"HtmlAndText"\<close> (for the batch, in
  every message). A request has a \<open>Tag\<close>, the caller's, exactly when the caller's tag is
  not empty after trimming; a batch entry never has one.
\<close>

theorem tracking_always_enabled:
  "(\<forall>h \<in> {sendEmail_handler_guarded cfg client a, sendEmail_handler_tracked cfg client a}.
      \<forall>p \<in> set (fst h). TrackOpens p = Some True \<and> TrackLinks p = Some ''HtmlAndText''
        \<and> Tag p = (if \<exists>t. arg_tag a = Some t \<and> js_trim t \<noteq> [] then arg_tag a else None))
   \<and> (\<forall>batch \<in> set (fst (sendEmailBatch_handler_tracked cfg bclient stringify messages)).
      \<forall>p \<in> set batch. TrackOpens p = Some True \<and> TrackLinks p = Some ''HtmlAndText''
        \<and> Tag p = None)
   \<and> (\<forall>h \<in> {sendEmailWithTemplate_handler_guarded cfg tclient t,
              sendEmailWithTemplate_handler_tracked cfg tclient t}.
      \<forall>p \<in> set (fst h). TrackOpens p = Some True \<and> TrackLinks p = Some ''HtmlAndText''
        \<and> Tag p = (if \<exists>s. tpl_tag t = Some s \<and> js_trim s \<noteq> [] then tpl_tag t else None))
   \<and> (\<forall>p. sendEmailWithTemplate_payload cfg t = Inr p \<longrightarrow>
        TrackOpens p = Some True \<and> TrackLinks p = Some ''HtmlAndText'')
   \<and> ((\<exists>v. sendEmail_schema isEmail raw = Some v)
        \<or> (\<exists>v. sendEmailWithTemplate_schema isEmail raw = Some v) \<longrightarrow>
        map_of raw ''trackOpens'' = Some (JBool True)
        \<and> map_of raw ''trackLinks'' = Some (JStr ''HtmlAndText''))
   \<and> ((\<exists>v. sendEmailBatch_schema_tracked isEmail raw = Some v) \<longrightarrow>
        (\<exists>xs. map_of raw ''messages'' = Some (JArr xs)
          \<and> (\<forall>m \<in> set xs. \<exists>msg. m = JObj msg
                \<and> map_of msg ''trackOpens'' = Some (JBool True)
                \<and> map_of msg ''trackLinks'' = Some (JStr ''HtmlAndText''))))"
proof -
  have send: "\<forall>h \<in> {sendEmail_handler_guarded cfg client a, sendEmail_handler_tracked cfg client a}.
      \<forall>p \<in> set (fst h). TrackOpens p = Some True \<and> TrackLinks p = Some ''HtmlAndText''
        \<and> Tag p = (if \<exists>t. arg_tag a = Some t \<and> js_trim t \<noteq> [] then arg_tag a else None)"
    by (auto simp: sendEmail_handler_guarded_def sendEmail_handler_tracked_def
        sendEmail_payload_def tag_given_iff Let_def split: sum.splits)
  have batch: "\<forall>batch \<in> set (fst (sendEmailBatch_handler_tracked cfg bclient stringify messages)).
      \<forall>p \<in> set batch. TrackOpens p = Some True \<and> TrackLinks p = Some ''HtmlAndText''
        \<and> Tag p = None"
    by (auto simp: sendEmailBatch_handler_tracked_def batch_entry_tracked_def Let_def
        split: sum.splits)
  have payload: "TrackOpens p = Some True \<and> TrackLinks p = Some ''HtmlAndText''
        \<and> Tag p = (if \<exists>s. tpl_tag t = Some s \<and> js_trim s \<noteq> [] then tpl_tag t else None)"
    if "sendEmailWithTemplate_payload cfg t = Inr p" for p
    using that
    by (auto simp: sendEmailWithTemplate_payload_def tag_given_iff Let_def split: if_splits)
  have template: "\<forall>h \<in> {sendEmailWithTemplate_handler_guarded cfg tclient t,
              sendEmailWithTemplate_handler_tracked cfg tclient t}.
      \<forall>p \<in> set (fst h). TrackOpens p = Some True \<and> TrackLinks p = Some ''HtmlAndText''
        \<and> Tag p = (if \<exists>s. tpl_tag t = Some s \<and> js_trim s \<noteq> [] then tpl_tag t else None)"
  proof (cases "sendEmailWithTemplate_payload cfg t")
    case (Inl e)
    then show ?thesis
      by (simp add: sendEmailWithTemplate_handler_guarded_def
          sendEmailWithTemplate_handler_tracked_def)
  next
    case (Inr p)
    with payload [OF Inr] show ?thesis
      by (auto simp: sendEmailWithTemplate_handler_guarded_def
          sendEmailWithTemplate_handler_tracked_def split: sum.splits)
  qed
  from send batch template payload
    sendEmail_schema_literals [of isEmail raw]
    sendEmailWithTemplate_schema_literals [of isEmail raw]
    sendEmailBatch_schema_literals [of isEmail raw]
  show ?thesis by blast
qed

theorem tracking_always_enabled_witness:
  "sendEmail_schema (\<lambda>s. CHR ''@'' \<in> set s)
      (scenario_arguments @ [(''tag'', JStr ''  ''), (''trackOpens'', JBool True),
         (''trackLinks'', JStr ''HtmlAndText'')])
     = Some \<lparr>arg_to = ''a@b.com'', arg_subject = ''S'', arg_textBody = ''B'', arg_from = None,
         arg_messageStream = None, arg_tag = Some ''  ''\<rparr>
   \<and> map_of (scenario_arguments @ [(''tag'', JStr ''  ''), (''trackOpens'', JBool True),
         (''trackLinks'', JStr ''HtmlAndText'')]) ''trackOpens'' = Some (JBool True)
   \<and> fst (sendEmail_handler_tracked scenario_config (\<lambda>p. Inr \<lparr>MessageID = ''id-1''\<rparr>)
        \<lparr>arg_to = ''a@b.com'', arg_subject = ''S'', arg_textBody = ''B'', arg_from = None,
         arg_messageStream = None, arg_tag = Some ''  ''\<rparr>)
     = [\<lparr>From = ''info@x.com'', To = ''a@b.com'', MessageStream = ''outbound'',
         TrackOpens = Some True, TrackLinks = Some ''HtmlAndText'', Tag = None,
         Subject = ''S'', TextBody = ''B''\<rparr>]"
  using tracking_always_enabled [where cfg = scenario_config
      and client = "\<lambda>p. Inr \<lparr>MessageID = ''id-1''\<rparr>"
      and a = "\<lparr>arg_to = ''a@b.com'', arg_subject = ''S'', arg_textBody = ''B'', arg_from = None,
         arg_messageStream = None, arg_tag = Some ''  ''\<rparr>"
      and isEmail = "\<lambda>s. CHR ''@'' \<in> set s"
      and raw = "scenario_arguments @ [(''tag'', JStr ''  ''), (''trackOpens'', JBool True),
         (''trackLinks'', JStr ''HtmlAndText'')]"]
  by (simp add: sendEmail_schema_def scenario_arguments_def scenario_config_def z_email_def
      z_string_def z_optional_def z_literal_true_def z_literal_def sendEmail_handler_tracked_def
      sendEmail_payload_def or_default_def tag_given_def js_trim_def js_whitespace_def)

subsection \<open>Failures\<close>

text \<open>
  Claim C5, as amended. In the guarded revision the handlers of \<^verbatim>\<open>sendEmail\<close> and
  \<^verbatim>\<open>sendEmailWithTemplate\<close> always resolve to a tool result; when the provider call
  rejects (or, for the template tool, the identifier check throws), the result is one
  text: \<^verbatim>\<open>Failed to send email: \<close> or \<^verbatim>\<open>Failed to send template email: \<close> followed by
  the failure's message, or by \<^verbatim>\<open>Unknown error\<close> if the message is empty.
  \<^verbatim>\<open>getDeliveryStats\<close> answers a failed fetch with \<^verbatim>\<open>Error fetching delivery stats: \<close>
  followed by the failure's \<^verbatim>\<open>toString()\<close>. The handlers without a \<^verbatim>\<open>try/catch\<close>, among
  them \<^verbatim>\<open>sendEmail\<close> in the basic and tracked revisions and \<^verbatim>\<open>getOutboundMessages\<close> in
  every revision, reject with the failure of the provider call.
\<close>

theorem guarded_handlers_report_failures:
  "(\<exists>r. snd (sendEmail_handler_guarded cfg client a) = Inr r)
   \<and> (client (sendEmail_payload cfg a) = Inl e \<longrightarrow>
        snd (sendEmail_handler_guarded cfg client a)
          = Inr \<lparr>content = [''Failed to send email: ''
              @ (if error_message e = [] then ''Unknown error'' else error_message e)]\<rparr>)
   \<and> (\<exists>r. snd (sendEmailWithTemplate_handler_guarded cfg tclient t) = Inr r)
   \<and> (sendEmailWithTemplate_payload cfg t = Inl e
        \<or> (\<exists>p. sendEmailWithTemplate_payload cfg t = Inr p \<and> tclient p = Inl e) \<longrightarrow>
        snd (sendEmailWithTemplate_handler_guarded cfg tclient t)
          = Inr \<lparr>content = [''Failed to send template email: ''
              @ (if error_message e = [] then ''Unknown error'' else error_message e)]\<rparr>)
   \<and> getDeliveryStats_handler shortest (Inl e)
        = \<lparr>content = [''Error fetching delivery stats: '' @ error_toString e]\<rparr>
   \<and> (client (sendEmail_payload_basic cfg a) = Inl e \<longrightarrow>
        snd (sendEmail_handler_basic cfg client a) = Inl e)
   \<and> (client (sendEmail_payload cfg a) = Inl e \<longrightarrow>
        snd (sendEmail_handler_tracked cfg client a) = Inl e)
   \<and> (oclient (case arg_count o_args of None \<Rightarrow> Fin 10 | Some c \<Rightarrow> c,
                case arg_offset o_args of None \<Rightarrow> Fin 0 | Some c \<Rightarrow> c) = Inl e \<longrightarrow>
        snd (getOutboundMessages_handler oclient stringify o_args) = Inl e)"
  by (auto simp: sendEmail_handler_guarded_def sendEmail_handler_basic_def
      sendEmail_handler_tracked_def sendEmailWithTemplate_handler_guarded_def
      getDeliveryStats_handler_def getOutboundMessages_handler_def message_or_unknown_def
      Let_def split: sum.splits)

theorem guarded_handlers_report_failures_witness:
  "sendEmail_handler_guarded scenario_config (\<lambda>p. Inl (Error ''Request timed out''))
      \<lparr>arg_to = ''a@b.com'', arg_subject = ''S'', arg_textBody = ''B'', arg_from = None,
       arg_messageStream = None, arg_tag = None\<rparr>
   = ([\<lparr>From = ''info@x.com'', To = ''a@b.com'', MessageStream = ''outbound'',
        TrackOpens = Some True, TrackLinks = Some ''HtmlAndText'', Tag = None,
        Subject = ''S'', TextBody = ''B''\<rparr>],
      Inr \<lparr>content = [''Failed to send email: Request timed out'']\<rparr>)"
  using guarded_handlers_report_failures [where cfg = scenario_config
      and client = "\<lambda>p. Inl (Error ''Request timed out'')"
      and e = "Error ''Request timed out''"
      and a = "\<lparr>arg_to = ''a@b.com'', arg_subject = ''S'', arg_textBody = ''B'', arg_from = None,
       arg_messageStream = None, arg_tag = None\<rparr>"]
  by (simp add: sendEmail_handler_guarded_def sendEmail_payload_def scenario_config_def
      or_default_def tag_given_def message_or_unknown_def Error_def)

text \<open>
  Claim C5 as stated, for every tool, fails on the handlers without a \<^verbatim>\<open>try/catch\<close>:
  when the provider call fails, the handler's promise rejects with that failure and no
  prefixed text is built.
\<close>

theorem unguarded_handler_counterexample:
  "dispatch getOutboundMessages_schema
      (getOutboundMessages_handler (\<lambda>q. Inl (Error ''Request timed out'')) (\<lambda>j. [])) []
   = ([(Fin 10, Fin 0)], Threw (Error ''Request timed out''))
   \<and> sendEmail_handler_tracked scenario_config (\<lambda>p. Inl (Error ''Request timed out''))
      \<lparr>arg_to = ''a@b.com'', arg_subject = ''S'', arg_textBody = ''B'', arg_from = None,
       arg_messageStream = None, arg_tag = None\<rparr>
   = ([\<lparr>From = ''info@x.com'', To = ''a@b.com'', MessageStream = ''outbound'',
        TrackOpens = Some True, TrackLinks = Some ''HtmlAndText'', Tag = None,
        Subject = ''S'', TextBody = ''B''\<rparr>],
      Inl (Error ''Request timed out''))"
  by (simp add: dispatch_def getOutboundMessages_schema_def getOutboundMessages_handler_def
      z_optional_def sendEmail_handler_tracked_def sendEmail_payload_def scenario_config_def
      or_default_def tag_given_def)

subsection \<open>The scenario\<close>

text \<open>
  Claim C6, as amended. With default sender \<^verbatim>\<open>info@x.com\<close> and default stream
  \<^verbatim>\<open>outbound\<close>, and an address check that accepts \<^verbatim>\<open>a@b.com\<close>: in the basic revision
  the arguments \<^verbatim>\<open>{to: "a@b.com", subject: "S", textBody: "B"}\<close> give exactly the request
  with \<open>From\<close>, \<open>To\<close>, \<open>Subject\<close>, \<open>TextBody\<close> and \<open>MessageStream\<close>, and the success text
  ends with the provider's message identifier. In the guarded and tracked revisions
  these arguments are rejected by the schema and no request is issued; with
  \<open>trackOpens: true\<close> and \<open>trackLinks: "HtmlAndText"\<close> added they give that request
  extended by \<open>TrackOpens\<close> and \<open>TrackLinks\<close>, and the same success text.
\<close>

theorem sendEmail_scenario:
  "(isEmail ''a@b.com''
      \<and> client \<lparr>From = ''info@x.com'', To = ''a@b.com'', MessageStream = ''outbound'',
            TrackOpens = None, TrackLinks = None, Tag = None,
            Subject = ''S'', TextBody = ''B''\<rparr> = Inr result \<longrightarrow>
      dispatch (sendEmail_schema_basic isEmail) (sendEmail_handler_basic scenario_config client)
          scenario_arguments
        = ([\<lparr>From = ''info@x.com'', To = ''a@b.com'', MessageStream = ''outbound'',
             TrackOpens = None, TrackLinks = None, Tag = None,
             Subject = ''S'', TextBody = ''B''\<rparr>],
           Returned \<lparr>content = [''Email sent! MessageID: '' @ MessageID result]\<rparr>))
   \<and> (\<forall>h \<in> {sendEmail_handler_guarded scenario_config client,
               sendEmail_handler_tracked scenario_config client}.
        dispatch (sendEmail_schema isEmail) h scenario_arguments = ([], InvalidArgument)
        \<and> (isEmail ''a@b.com''
            \<and> client \<lparr>From = ''info@x.com'', To = ''a@b.com'', MessageStream = ''outbound'',
                 TrackOpens = Some True, TrackLinks = Some ''HtmlAndText'', Tag = None,
                 Subject = ''S'', TextBody = ''B''\<rparr> = Inr result \<longrightarrow>
            dispatch (sendEmail_schema isEmail) h
                (scenario_arguments
                   @ [(''trackOpens'', JBool True), (''trackLinks'', JStr ''HtmlAndText'')])
              = ([\<lparr>From = ''info@x.com'', To = ''a@b.com'', MessageStream = ''outbound'',
                   TrackOpens = Some True, TrackLinks = Some ''HtmlAndText'', Tag = None,
                   Subject = ''S'', TextBody = ''B''\<rparr>],
                 Returned \<lparr>content = [''Email sent! MessageID: '' @ MessageID result]\<rparr>)))"
  by (auto simp: dispatch_def sendEmail_schema_basic_def sendEmail_schema_def
      scenario_arguments_def scenario_config_def z_email_def z_string_def z_optional_def
      z_literal_true_def z_literal_def sendEmail_handler_basic_def sendEmail_handler_guarded_def
      sendEmail_handler_tracked_def sendEmail_payload_basic_def sendEmail_payload_def
      or_default_def tag_given_def)

theorem sendEmail_scenario_witness:
  "dispatch (sendEmail_schema_basic (\<lambda>s. CHR ''@'' \<in> set s))
      (sendEmail_handler_basic scenario_config (\<lambda>p. Inr \<lparr>MessageID = ''id-1''\<rparr>))
      scenario_arguments
   = ([\<lparr>From = ''info@x.com'', To = ''a@b.com'', MessageStream = ''outbound'',
        TrackOpens = None, TrackLinks = None, Tag = None,
        Subject = ''S'', TextBody = ''B''\<rparr>],
      Returned \<lparr>content = [''Email sent! MessageID: id-1'']\<rparr>)"
  using sendEmail_scenario [where isEmail = "\<lambda>s. CHR ''@'' \<in> set s"
      and client = "\<lambda>p. Inr \<lparr>MessageID = ''id-1''\<rparr>" and result = "\<lparr>MessageID = ''id-1''\<rparr>"]
  by simp

text \<open>
  Claim C6 as stated fails in the tracked revision: the three arguments alone do not pass
  the schema, so no provider request is constructed.
\<close>

theorem sendEmail_scenario_counterexample:
  "dispatch (sendEmail_schema (\<lambda>s. True))
      (sendEmail_handler_tracked scenario_config (\<lambda>p. Inr \<lparr>MessageID = ''id-1''\<rparr>))
      scenario_arguments
   = ([], InvalidArgument)"
  by (simp add: dispatch_def sendEmail_schema_def scenario_arguments_def z_email_def
      z_string_def z_optional_def z_literal_true_def)

end
